theory Spec2Isabelle
  imports Main "HOL-Library.Sublist" "HOL-Library.Word"
begin

section \<open>JavaScript values and coercions\<close>

text \<open>
  The source file holds two listings of the module, divided by a separator line. The first
  (lines 1 to 419) searches PATH only and captures with \<open>v4l2src\<close>; the second (lines 420
  to 831) adds the win32 and darwin searches and captures with \<open>ksvideosrc\<close>. A definition
  taken from the first listing keeps the source's name; its counterpart in the second
  listing, where the two differ, carries the suffix \<open>2\<close>.

  Values are dynamically typed. Numbers are modelled by integers, with \<open>JNaN\<close> apart; the
  embedding of the coercions is exact on integers below \<open>10^21\<close> in magnitude and on strings
  that hold integer numerals, which is what the configuration fields carry. A function or
  an object carries the text that its conversion to a string yields. Strings are lists of
  8-bit characters.
\<close>

datatype jsval =
    JUndefined
  | JNull
  | JBool bool
  | JNum int
  | JNaN
  | JStr string
  | JFunc string
  | JObject string

datatype error =
    AssertionError string
  | Error string
  | TypeError string
  | ReferenceError string
  | SystemError string

definition and_then :: "error + 'a \<Rightarrow> ('a \<Rightarrow> error + 'b) \<Rightarrow> error + 'b" where
  "and_then r f = (case r of Inl e \<Rightarrow> Inl e | Inr x \<Rightarrow> f x)"

fun truthy :: "jsval \<Rightarrow> bool" where
  "truthy JUndefined = False"
| "truthy JNull = False"
| "truthy (JBool b) = b"
| "truthy (JNum n) = (n \<noteq> 0)"
| "truthy JNaN = False"
| "truthy (JStr s) = (s \<noteq> [])"
| "truthy (JFunc s) = True"
| "truthy (JObject s) = True"

fun typeof :: "jsval \<Rightarrow> string" where
  "typeof JUndefined = ''undefined''"
| "typeof JNull = ''object''"
| "typeof (JBool b) = ''boolean''"
| "typeof (JNum n) = ''number''"
| "typeof JNaN = ''number''"
| "typeof (JStr s) = ''string''"
| "typeof (JFunc s) = ''function''"
| "typeof (JObject s) = ''object''"

definition js_or :: "jsval \<Rightarrow> jsval \<Rightarrow> jsval" where
  \<comment> \<open>\<open>a || b\<close>\<close>
  "js_or a b = (if truthy a then a else b)"

definition Assert_ok :: "jsval \<Rightarrow> string \<Rightarrow> error + unit" where
  \<comment> \<open>\<open>Assert.ok( value, message )\<close>: throws when \<open>value\<close> is falsy.\<close>
  "Assert_ok v msg = (if truthy v then Inr () else Inl (AssertionError msg))"

subsection \<open>Numbers to strings\<close>

definition digit_char :: "nat \<Rightarrow> char" where
  "digit_char d = ''0123456789'' ! (d mod 10)"

fun digits_of_nat :: "nat \<Rightarrow> string" where
  "digits_of_nat n =
     (if n < 10 then [digit_char n]
      else digits_of_nat (n div 10) @ [digit_char (n mod 10)])"

declare digits_of_nat.simps [simp del]

definition string_of_int :: "int \<Rightarrow> string" where
  "string_of_int i = (if i < 0 then CHR ''-'' # digits_of_nat (nat (- i)) else digits_of_nat (nat i))"

definition number_text :: "int option \<Rightarrow> string" where
  \<comment> \<open>the text of a number; \<open>None\<close> is NaN\<close>
  "number_text r = (case r of None \<Rightarrow> ''NaN'' | Some n \<Rightarrow> string_of_int n)"

fun to_string :: "jsval \<Rightarrow> string" where
  "to_string JUndefined = ''undefined''"
| "to_string JNull = ''null''"
| "to_string (JBool b) = (if b then ''true'' else ''false'')"
| "to_string (JNum n) = string_of_int n"
| "to_string JNaN = ''NaN''"
| "to_string (JStr s) = s"
| "to_string (JFunc s) = s"
| "to_string (JObject s) = s"

subsection \<open>Strings to numbers\<close>

definition is_space :: "char \<Rightarrow> bool" where
  \<comment> \<open>the characters of \<open>\s\<close> among the 8-bit ones\<close>
  "is_space c \<longleftrightarrow>
     c = CHR 0x09 \<or> c = CHR 0x0A \<or> c = CHR 0x0B \<or> c = CHR 0x0C \<or> c = CHR 0x0D \<or>
     c = CHR 0x20 \<or> c = CHR 0xA0"

definition is_line_terminator :: "char \<Rightarrow> bool" where
  "is_line_terminator c \<longleftrightarrow> c = CHR 0x0A \<or> c = CHR 0x0D"

definition digit_val :: "char \<Rightarrow> nat option" where
  "digit_val c =
     (let n = (of_char c :: nat) in
      if 48 \<le> n \<and> n \<le> 57 then Some (n - 48)
      else if 97 \<le> n \<and> n \<le> 122 then Some (n - 87)
      else if 65 \<le> n \<and> n \<le> 90 then Some (n - 55)
      else None)"

definition is_digit :: "nat \<Rightarrow> char \<Rightarrow> bool" where
  "is_digit radix c = (case digit_val c of None \<Rightarrow> False | Some d \<Rightarrow> d < radix)"

fun digits_value :: "nat \<Rightarrow> nat \<Rightarrow> string \<Rightarrow> nat" where
  "digits_value radix acc [] = acc"
| "digits_value radix acc (c # cs) =
     digits_value radix (case digit_val c of None \<Rightarrow> acc | Some d \<Rightarrow> acc * radix + d) cs"

definition trim :: "string \<Rightarrow> string" where
  "trim s = rev (dropWhile is_space (rev (dropWhile is_space s)))"

definition unsigned_numeral :: "nat \<Rightarrow> string \<Rightarrow> int option" where
  "unsigned_numeral radix s =
     (if s \<noteq> [] \<and> list_all (is_digit radix) s then Some (int (digits_value radix 0 s)) else None)"

definition str_to_number :: "string \<Rightarrow> int option" where
  \<comment> \<open>the conversion of a string to a number, on integer numerals; \<open>None\<close> is NaN\<close>
  "str_to_number s =
     (let t = trim s in
      if t = [] then Some 0
      else if hd t = CHR ''-'' then map_option uminus (unsigned_numeral 10 (tl t))
      else if hd t = CHR ''+'' then unsigned_numeral 10 (tl t)
      else if take 2 t = ''0x'' \<or> take 2 t = ''0X'' then unsigned_numeral 16 (drop 2 t)
      else if take 2 t = ''0o'' \<or> take 2 t = ''0O'' then unsigned_numeral 8 (drop 2 t)
      else if take 2 t = ''0b'' \<or> take 2 t = ''0B'' then unsigned_numeral 2 (drop 2 t)
      else unsigned_numeral 10 t)"

fun to_number :: "jsval \<Rightarrow> int option" where
  "to_number JUndefined = None"
| "to_number JNull = Some 0"
| "to_number (JBool b) = Some (if b then 1 else 0)"
| "to_number (JNum n) = Some n"
| "to_number JNaN = None"
| "to_number (JStr s) = str_to_number s"
| "to_number (JFunc s) = str_to_number s"
| "to_number (JObject s) = str_to_number s"

definition js_gt0 :: "jsval \<Rightarrow> bool" where
  \<comment> \<open>\<open>v > 0\<close>; a comparison with NaN is false\<close>
  "js_gt0 v = (case to_number v of None \<Rightarrow> False | Some n \<Rightarrow> 0 < n)"

definition parseInt_str :: "string \<Rightarrow> int option" where
  "parseInt_str s =
     (let t = dropWhile is_space s;
          neg = (t \<noteq> [] \<and> hd t = CHR ''-'');
          u = (if t \<noteq> [] \<and> (hd t = CHR ''-'' \<or> hd t = CHR ''+'') then tl t else t);
          hex = (take 2 u = ''0x'' \<or> take 2 u = ''0X'');
          radix = (if hex then 16 else 10);
          ds = takeWhile (is_digit radix) (if hex then drop 2 u else u)
      in if ds = [] then None
         else Some ((if neg then - 1 else 1) * int (digits_value radix 0 ds)))"

definition parseInt :: "jsval \<Rightarrow> int option" where
  "parseInt v = parseInt_str (to_string v)"

subsection \<open>String search and splitting\<close>

fun str_includes :: "string \<Rightarrow> string \<Rightarrow> bool" where
  \<comment> \<open>\<open>s.includes( t )\<close>\<close>
  "str_includes [] t = (t = [])"
| "str_includes (c # cs) t = (prefix t (c # cs) \<or> str_includes cs t)"

declare str_includes.simps [simp del]

fun str_split :: "char \<Rightarrow> string \<Rightarrow> string list" where
  \<comment> \<open>\<open>s.split( c )\<close> for a separator of one character\<close>
  "str_split c [] = [[]]"
| "str_split c (x # xs) =
     (if x = c then [] # str_split c xs
      else (case str_split c xs of [] \<Rightarrow> [[x]] | y # ys \<Rightarrow> (x # y) # ys))"

declare str_split.simps [simp del]

section \<open>The pipeline command builder: class GstLiveCamServer\<close>

record webcam_config =
  fake :: jsval
  width :: jsval
  height :: jsval
  framerate :: jsval
  grayscale :: jsval
  deviceIndex :: jsval

text \<open>
  The constructed object keeps the six fields, after defaulting, and adds two. The
  constructor reads nothing of its argument but the six properties, so an absent
  configuration, replaced by the empty object, is the record of six \<open>JUndefined\<close>.
\<close>

record server = webcam_config +
  gst_multipart_boundary :: string
  gst_video_src :: string

definition no_config :: webcam_config where
  "no_config = \<lparr>fake = JUndefined, width = JUndefined, height = JUndefined,
     framerate = JUndefined, grayscale = JUndefined, deviceIndex = JUndefined\<rparr>"

definition scale_clause :: "jsval \<Rightarrow> jsval \<Rightarrow> string" where
  "scale_clause w h =
     '' ! videoscale ! video/x-raw,width='' @ number_text (parseInt w) @
     '',height='' @ number_text (parseInt h)"

definition rate_clause :: "jsval \<Rightarrow> string" where
  "rate_clause f = '' ! videorate ! video/x-raw,framerate='' @ number_text (parseInt f) @ ''/1''"

definition gray_clause :: string where
  "gray_clause = '' ! videobalance saturation=0.0 ! videoconvert''"

definition build_video_src :: "string \<Rightarrow> jsval \<Rightarrow> jsval \<Rightarrow> jsval \<Rightarrow> jsval \<Rightarrow> jsval \<Rightarrow> string" where
  \<comment> \<open>lines 126 to 144: the source clause, then the three conditional appends\<close>
  "build_video_src live fk w h f g =
     (let src0 = (if \<not> truthy fk then live else ''videotestsrc'');
          src1 = (if js_gt0 w \<or> js_gt0 h then src0 @ scale_clause w h else src0);
          src2 = (if js_gt0 f then src1 @ rate_clause f else src1);
          src3 = (if truthy g then src2 @ gray_clause else src2)
      in src3)"

definition GstLiveCamServer_with :: "string \<Rightarrow> webcam_config \<Rightarrow> error + server" where
  \<comment> \<open>the constructor; \<open>live\<close> is the live-capture clause, the one place where the listings differ\<close>
  "GstLiveCamServer_with live config =
     (let fk = js_or (fake config) (JBool False);
          w = js_or (width config) (JNum 800);
          h = js_or (height config) (JNum 600);
          f = js_or (framerate config) (JNum 30);
          g = js_or (grayscale config) (JBool False);
          d = js_or (deviceIndex config) (JNum (- 1))
      in and_then (Assert_ok (JStr (typeof (JObject ''[object Object]''))) ''object'') (\<lambda>_.
         and_then (Assert_ok (JStr (typeof fk)) ''boolean'') (\<lambda>_.
         and_then (Assert_ok (JStr (typeof w)) ''number'') (\<lambda>_.
         and_then (Assert_ok (JStr (typeof h)) ''number'') (\<lambda>_.
         and_then (Assert_ok (JStr (typeof f)) ''number'') (\<lambda>_.
         and_then (Assert_ok (JStr (typeof g)) ''boolean'') (\<lambda>_.
           Inr \<lparr>fake = fk, width = w, height = h, framerate = f, grayscale = g,
                deviceIndex = d, gst_multipart_boundary = ''--videoboundary'',
                gst_video_src = build_video_src live fk w h f g\<rparr>)))))))"

definition GstLiveCamServer :: "webcam_config \<Rightarrow> error + server" where
  "GstLiveCamServer = GstLiveCamServer_with ''v4l2src ! decodebin''"

definition GstLiveCamServer2 :: "webcam_config \<Rightarrow> error + server" where
  "GstLiveCamServer2 = GstLiveCamServer_with ''-v ksvideosrc do-stats=TRUE''"

definition cam_pipeline :: "server \<Rightarrow> jsval \<Rightarrow> jsval \<Rightarrow> string" where
  \<comment> \<open>the command string that \<open>start\<close> assembles\<close>
  \<open>cam_pipeline srv tcp_addr tcp_port =
     gst_video_src srv @ '' ! jpegenc ! multipartmux  boundary="'' @
     gst_multipart_boundary srv @ ''" ! tcpserversink host='' @ to_string tcp_addr @
     '' port='' @ to_string tcp_port\<close>

definition sink_clause :: "jsval \<Rightarrow> jsval \<Rightarrow> string" where
  \<comment> \<open>what \<open>start\<close> appends to \<open>gst_video_src\<close>, with the boundary that the constructor sets\<close>
  \<open>sink_clause tcp_addr tcp_port =
     '' ! jpegenc ! multipartmux  boundary="--videoboundary" ! tcpserversink host='' @
     to_string tcp_addr @ '' port='' @ to_string tcp_port\<close>

section \<open>Lexical scope\<close>

text \<open>
  Reading an identifier that no enclosing scope declares throws a ReferenceError. The
  names below are the ones the module declares at top level (the required modules and
  the classes), with the globals of the runtime that the code uses.
\<close>

definition module_scope :: "string list" where
  "module_scope =
     [''SpawnSync'', ''Spawn'', ''Assert'', ''Path'', ''FS'', ''Net'', ''Http'', ''Dicer'',
      ''SocketIO'', ''GstLaunch'', ''GstLiveCamServer'', ''SocketCamWrapper'', ''LiveCam'',
      ''console'', ''process'', ''require'', ''module'']"

definition module_scope2 :: "string list" where
  "module_scope2 =
     [''SpawnSync'', ''Spawn'', ''Assert'', ''Path'', ''FS'', ''Net'', ''Http'', ''Dicer'',
      ''OS'', ''GstLaunch'', ''GstLiveCamServer'', ''SocketCamWrapper'', ''LiveCam'',
      ''console'', ''process'', ''require'', ''module'']"

definition resolve :: "string list \<Rightarrow> string \<Rightarrow> error + unit" where
  "resolve scope name =
     (if List.member scope name then Inr () else Inl (ReferenceError (name @ '' is not defined'')))"

section \<open>The launcher: class GstLaunch\<close>

text \<open>
  What the launcher reads of its surroundings: the environment variables, the platform,
  the file system (\<open>FS_access p\<close> holds when \<open>FS.accessSync( p, FS.F_OK )\<close> returns
  rather than throws), the path functions of the runtime, and the synchronous subprocess
  call. \<open>SpawnSync file args timeout\<close> yields \<open>Inl\<close> when the call throws, and otherwise
  the \<open>stdout\<close> of its result: \<open>None\<close> when that is null, the contents of the buffer
  otherwise. An undefined \<open>file\<close> is \<open>None\<close>.
\<close>

record env =
  PATH :: "string option"
  platform :: string
  arch :: string
  GSTREAMER_1_0_ROOT_X86_64 :: "string option"
  GSTREAMER_1_0_ROOT_X86 :: "string option"
  FS_access :: "string \<Rightarrow> bool"
  Path_normalize :: "string \<Rightarrow> string"
  Path_join :: "string list \<Rightarrow> string"
  SpawnSync :: "string option \<Rightarrow> string list \<Rightarrow> nat \<Rightarrow> error + string option"

definition gst_launch_executable :: string where
  "gst_launch_executable = ''gst-launch-1.0''"

definition gst_launch_versionarg :: string where
  "gst_launch_versionarg = ''--version''"

definition accessSync :: "env \<Rightarrow> string \<Rightarrow> error + unit" where
  "accessSync e p = (if FS_access e p then Inr () else Inl (SystemError ''ENOENT''))"

subsection \<open>getPath, first listing (lines 27 to 45)\<close>

definition probe :: "env \<Rightarrow> string \<Rightarrow> error + string" where
  \<comment> \<open>the body of the \<open>try\<close> block, up to the assignment\<close>
  "probe e dir =
     (let base = Path_normalize e dir;
          bin = Path_join e [base, gst_launch_executable]
      in and_then (accessSync e bin) (\<lambda>_. Inr bin))"

fun getPath_loop :: "env \<Rightarrow> string list \<Rightarrow> string option \<Rightarrow> string option" where
  "getPath_loop e [] detected_path = detected_path"
| "getPath_loop e (dir # dirs) detected_path =
     getPath_loop e dirs
       (case probe e dir of Inl ex \<Rightarrow> detected_path | Inr bin \<Rightarrow> Some bin)"

definition getPath :: "env \<Rightarrow> error + string option" where
  "getPath e =
     (case PATH e of
        None \<Rightarrow> Inl (TypeError ''Cannot read properties of undefined (reading split)'')
      | Some p \<Rightarrow> Inr (getPath_loop e (str_split CHR '':'' p) None))"

subsection \<open>getPath, second listing (lines 447 to 521)\<close>

definition probe2 :: "env \<Rightarrow> string \<Rightarrow> string \<Rightarrow> error + string" where
  \<comment> \<open>lines 488 to 493 and 502 to 507: the executable's name is read as a bare identifier,
      in a scope that holds the module's names and the locals of \<open>getPath\<close>\<close>
  "probe2 e ext dir =
     (let base = Path_normalize e dir in
      and_then (resolve (module_scope2 @ [''detected_path'', ''detected_path_x64'',
                  ''detected_path_x32'', ''path_dirs'', ''index'', ''base'', ''bin''])
                  ''gst_launch_executable'') (\<lambda>_.
        (let bin = Path_join e [base, gst_launch_executable @ ext]
         in and_then (accessSync e bin) (\<lambda>_. Inr bin))))"

fun getPath_loop2 :: "env \<Rightarrow> string \<Rightarrow> string list \<Rightarrow> string option \<Rightarrow> string option" where
  "getPath_loop2 e ext [] detected_path = detected_path"
| "getPath_loop2 e ext (dir # dirs) detected_path =
     getPath_loop2 e ext dirs
       (case probe2 e ext dir of Inl ex \<Rightarrow> detected_path | Inr bin \<Rightarrow> Some bin)"

definition var_truthy :: "string option \<Rightarrow> bool" where
  \<comment> \<open>truthiness of a value that is a string or undefined\<close>
  "var_truthy v = (case v of None \<Rightarrow> False | Some s \<Rightarrow> s \<noteq> [])"

definition var_or :: "string option \<Rightarrow> string option \<Rightarrow> string option" where
  "var_or a b = (if var_truthy a then a else b)"

definition getPath2 :: "env \<Rightarrow> error + string option" where
  "getPath2 e =
     (if platform e = ''win32'' then
        (let detected_path_x64 = GSTREAMER_1_0_ROOT_X86_64 e;
             detected_path_x32 = GSTREAMER_1_0_ROOT_X86 e;
             detected_path =
               (if var_truthy (var_or detected_path_x64 detected_path_x32) then
                  (if var_truthy detected_path_x64 \<and> var_truthy detected_path_x32 then
                     (if arch e = ''x64'' then detected_path_x64
                      else if arch e = ''x32'' then detected_path_x32
                      else None)
                   else var_or detected_path_x64 detected_path_x32)
                else None)
         in (case detected_path of
               Some root \<Rightarrow>
                 (if root \<noteq> [] then
                    (let p = Path_join e [root, ''bin'', gst_launch_executable @ ''.exe'']
                     in (case accessSync e p of Inl ex \<Rightarrow> Inr None | Inr _ \<Rightarrow> Inr (Some p)))
                  else
                    (case PATH e of
                       None \<Rightarrow> Inl (TypeError ''Cannot read properties of undefined (reading split)'')
                     | Some p \<Rightarrow> Inr (getPath_loop2 e ''.exe'' (str_split CHR '';'' p) detected_path)))
             | None \<Rightarrow>
                 (case PATH e of
                    None \<Rightarrow> Inl (TypeError ''Cannot read properties of undefined (reading split)'')
                  | Some p \<Rightarrow> Inr (getPath_loop2 e ''.exe'' (str_split CHR '';'' p) detected_path))))
      else if platform e = ''linux'' then
        (case PATH e of
           None \<Rightarrow> Inl (TypeError ''Cannot read properties of undefined (reading split)'')
         | Some p \<Rightarrow> Inr (getPath_loop2 e [] (str_split CHR '':'' p) None))
      else if platform e = ''darwin'' then
        (let bin = ''/usr/local/bin/gst-launch-1.0''
         in (case accessSync e bin of Inl ex \<Rightarrow> Inr None | Inr _ \<Rightarrow> Inr (Some bin)))
      else Inr None)"

subsection \<open>getVersion and isAvailable\<close>

text \<open>
  The pattern \<open>/GStreamer\s+.+/g\<close>: the word, one or more blanks, one or more characters
  other than a line terminator. \<open>match_here r\<close> matches what follows the word: the run of
  blanks is taken whole, then given back one at a time until a character that the dot
  accepts follows it.
\<close>

definition match_here :: "string \<Rightarrow> string option" where
  "match_here r =
     (let k = length (takeWhile is_space r)
      in (case find (\<lambda>j. j < length r \<and> \<not> is_line_terminator (r ! j)) (rev [1 ..< Suc k]) of
            None \<Rightarrow> None
          | Some j \<Rightarrow> Some (take j r @ takeWhile (\<lambda>c. \<not> is_line_terminator c) (drop j r))))"

fun match_version :: "string \<Rightarrow> string option" where
  \<comment> \<open>\<open>s.match( /GStreamer\s+.+/g )\<close>: the first match, \<open>None\<close> for null\<close>
  "match_version [] = None"
| "match_version (c # cs) =
     (case (if prefix ''GStreamer'' (c # cs) then match_here (drop 9 (c # cs)) else None) of
        Some m \<Rightarrow> Some (''GStreamer'' @ m)
      | None \<Rightarrow> match_version cs)"

declare match_version.simps [simp del]

fun strip_word :: "string \<Rightarrow> string" where
  \<comment> \<open>\<open>s.replace( /GStreamer\s+/, '' )\<close>: the first occurrence is removed\<close>
  "strip_word [] = []"
| "strip_word (c # cs) =
     (if prefix ''GStreamer'' (c # cs) \<and> takeWhile is_space (drop 9 (c # cs)) \<noteq> []
      then dropWhile is_space (drop 9 (c # cs))
      else c # strip_word cs)"

declare strip_word.simps [simp del]

definition path_value :: "string option \<Rightarrow> jsval" where
  "path_value p = (case p of None \<Rightarrow> JUndefined | Some s \<Rightarrow> JStr s)"

definition query_version :: "(env \<Rightarrow> error + string option) \<Rightarrow> env \<Rightarrow> error + string option" where
  \<comment> \<open>the body of the \<open>try\<close> block of getVersion\<close>
  "query_version get_path e =
     and_then (get_path e) (\<lambda>gst_launch_path.
     and_then (Assert_ok (JStr (typeof (path_value gst_launch_path))) ''string'') (\<lambda>_.
     and_then (SpawnSync e gst_launch_path [gst_launch_versionarg] 1000) (\<lambda>output.
       (case output of
          None \<Rightarrow> Inr None
        | Some out \<Rightarrow>
            (if str_includes out ''GStreamer'' then
               (case match_version out of
                  None \<Rightarrow> Inl (TypeError ''Cannot read properties of null (reading 0)'')
                | Some m \<Rightarrow> Inr (Some (strip_word m)))
             else Inr None)))))"

definition getVersion_with :: "(env \<Rightarrow> error + string option) \<Rightarrow> env \<Rightarrow> error + string option" where
  "getVersion_with get_path e =
     (case query_version get_path e of Inl ex \<Rightarrow> Inr None | Inr version_str \<Rightarrow> Inr version_str)"

definition isAvailable_with :: "(env \<Rightarrow> error + string option) \<Rightarrow> env \<Rightarrow> error + bool" where
  "isAvailable_with get_path e =
     and_then (getVersion_with get_path e) (\<lambda>v. Inr (v \<noteq> None))"

definition getVersion :: "env \<Rightarrow> error + string option" where
  "getVersion = getVersion_with getPath"

definition getVersion2 :: "env \<Rightarrow> error + string option" where
  "getVersion2 = getVersion_with getPath2"

definition isAvailable :: "env \<Rightarrow> error + bool" where
  "isAvailable = isAvailable_with getPath"

definition isAvailable2 :: "env \<Rightarrow> error + bool" where
  "isAvailable2 = isAvailable_with getPath2"

subsection \<open>spawnPipeline and start\<close>

record child =
  spawnfile :: string
  spawnargs :: "string list"

definition spawnPipeline_with ::
  "(env \<Rightarrow> error + string option) \<Rightarrow> env \<Rightarrow> string \<Rightarrow> error + child" where
  "spawnPipeline_with get_path e pipeline =
     and_then (Assert_ok (JStr (typeof (JStr pipeline))) ''string'') (\<lambda>_.
     and_then (isAvailable_with get_path e) (\<lambda>available.
     and_then (Assert_ok (JBool available) ''gst-launch is not available.'') (\<lambda>_.
     and_then (get_path e) (\<lambda>gst_launch_path.
     and_then (Assert_ok (JStr (typeof (path_value gst_launch_path))) ''string'') (\<lambda>_.
       (case gst_launch_path of
          None \<Rightarrow> Inl (TypeError ''The file argument must be of type string'')
        | Some p \<Rightarrow> Inr \<lparr>spawnfile = p, spawnargs = str_split CHR '' '' pipeline\<rparr>))))))"

definition start_with ::
  "(env \<Rightarrow> error + string option) \<Rightarrow> env \<Rightarrow> server \<Rightarrow> jsval \<Rightarrow> jsval \<Rightarrow> error + child" where
  \<comment> \<open>GstLiveCamServer.start\<close>
  "start_with get_path e srv tcp_addr tcp_port =
     and_then (Assert_ok (JStr (typeof tcp_addr)) ''string'') (\<lambda>_.
     and_then (Assert_ok (JStr (typeof tcp_port)) ''number'') (\<lambda>_.
     and_then (isAvailable_with get_path e) (\<lambda>available.
       (if available then
          and_then (get_path e) (\<lambda>_.
          and_then (getVersion_with get_path e) (\<lambda>_.
            spawnPipeline_with get_path e (cam_pipeline srv tcp_addr tcp_port)))
        else Inl (Error ''GstLaunch not found.'')))))"

section \<open>The relay: class SocketCamWrapper\<close>

text \<open>
  The multipart stream is cut into parts by the parser of a library; the relay's own code
  is the handlers that the parser calls. A part is the list of the chunks in which its
  bytes arrive. A part stream set to the \<open>base64\<close> encoding hands each chunk over as text:
  the bytes that do not fill a group of three wait for the next chunk, and the end of the
  part flushes them. A chunk whose text is empty raises no \<open>data\<close> event.
\<close>

type_synonym byte = "8 word"

definition b64_alphabet :: string where
  "b64_alphabet = ''ABCDEFGHIJKLMNOPQRSTUVWXYZabcdefghijklmnopqrstuvwxyz0123456789+/''"

definition b64_char :: "nat \<Rightarrow> char" where
  "b64_char n = b64_alphabet ! (n mod 64)"

fun base64 :: "byte list \<Rightarrow> string" where
  "base64 [] = []"
| "base64 [a] =
     (let n = unat a * 65536
      in [b64_char (n div 262144), b64_char (n div 4096), CHR ''='', CHR ''=''])"
| "base64 [a, b] =
     (let n = unat a * 65536 + unat b * 256
      in [b64_char (n div 262144), b64_char (n div 4096), b64_char (n div 64), CHR ''=''])"
| "base64 (a # b # c # rest) =
     (let n = unat a * 65536 + unat b * 256 + unat c
      in [b64_char (n div 262144), b64_char (n div 4096), b64_char (n div 64), b64_char n])
     @ base64 rest"

fun base64_chunks :: "byte list \<Rightarrow> byte list list \<Rightarrow> string list" where
  \<comment> \<open>the texts of the \<open>data\<close> events of one part; the first argument is the bytes kept back\<close>
  "base64_chunks kept [] = (if kept = [] then [] else [base64 kept])"
| "base64_chunks kept (chunk # chunks) =
     (let buf = kept @ chunk;
          n = length buf - length buf mod 3
      in base64 (take n buf) # base64_chunks (drop n buf) chunks)"

text \<open>
  The object of the class. Its field \<open>gst_multipart_boundary\<close> is named \<open>relay_boundary\<close>
  here, the source's name being taken by the field of the pipeline object.
\<close>

record relay =
  relay_boundary :: string
  lastImage :: string

text \<open>
  What the running program has done so far: the calls of \<open>wrap\<close> with their arguments, the
  calls of the start callback, the events sent to the subscribers, and the exception
  that no handler caught, after which the process handles no further event.
\<close>

record effects =
  wrap_calls :: "(jsval \<times> jsval \<times> jsval \<times> jsval) list"
  start_calls :: nat
  emitted :: "(string \<times> string) list"
  uncaught :: "error option"

definition no_effects :: effects where
  "no_effects = \<lparr>wrap_calls = [], start_calls = 0, emitted = [], uncaught = None\<rparr>"

definition SocketCamWrapper :: relay where
  "SocketCamWrapper = \<lparr>relay_boundary = ''--videoboundary'', lastImage = []\<rparr>"

definition getLastImage :: "relay \<Rightarrow> string" where
  "getLastImage r = lastImage r"

definition wrap_scope :: "string list" where
  \<comment> \<open>the names visible in the \<open>end\<close> handler of \<open>wrap\<close>, first listing\<close>
  "wrap_scope =
     module_scope @ [''gst_tcp_addr'', ''gst_tcp_port'', ''broadcast_tcp_addr'',
       ''broadcast_tcp_port'', ''part'', ''frameEncoded'']"

definition frame_text :: "byte list list \<Rightarrow> string" where
  \<comment> \<open>\<open>frameEncoded\<close> when the part ends: the texts of the \<open>data\<close> events, appended in order\<close>
  "frame_text chunks =
     foldl (\<lambda>frameEncoded data. frameEncoded @ data) []
       (filter (\<lambda>data. data \<noteq> []) (base64_chunks [] chunks))"

definition publish :: "relay \<times> effects \<Rightarrow> string \<Rightarrow> relay \<times> effects" where
  \<comment> \<open>the emit and the assignment of the \<open>end\<close> handler\<close>
  "publish st frameEncoded =
     (fst st\<lparr>lastImage := frameEncoded\<rparr>,
      snd st\<lparr>emitted := emitted (snd st) @ [(''image'', frameEncoded)]\<rparr>)"

definition on_part :: "relay \<times> effects \<Rightarrow> byte list list \<Rightarrow> relay \<times> effects" where
  \<comment> \<open>first listing, lines 212 to 223: the emitter is read as the bare identifier \<open>io\<close>\<close>
  "on_part st chunks =
     (if uncaught (snd st) \<noteq> None then st
      else (let frameEncoded = frame_text chunks
            in (case resolve wrap_scope ''io'' of
                  Inl ex \<Rightarrow> (fst st, snd st\<lparr>uncaught := Some ex\<rparr>)
                | Inr _ \<Rightarrow> publish st frameEncoded)))"

definition on_part2 :: "relay \<times> effects \<Rightarrow> byte list list \<Rightarrow> relay \<times> effects" where
  \<comment> \<open>second listing, lines 709 to 720: the emitter is \<open>this.io\<close>\<close>
  "on_part2 st chunks =
     (if uncaught (snd st) \<noteq> None then st
      else publish st (frame_text chunks))"

definition pipe :: "relay \<times> effects \<Rightarrow> byte list list list \<Rightarrow> relay \<times> effects" where
  "pipe st parts = foldl on_part st parts"

definition pipe2 :: "relay \<times> effects \<Rightarrow> byte list list list \<Rightarrow> relay \<times> effects" where
  "pipe2 st parts = foldl on_part2 st parts"

section \<open>The orchestrator: class LiveCam\<close>

text \<open>
  The fields of the configuration object are named as the constructor reads them,
  \<open>config.start\<close> as \<open>config_start\<close>. The webcam configuration is \<open>None\<close> when absent or
  falsy; the constructor of the pipeline reads nothing of it but its six properties.
\<close>

record livecam_config =
  config_gst_addr :: jsval
  config_gst_port :: jsval
  config_ui_addr :: jsval
  config_ui_port :: jsval
  config_broadcast_addr :: jsval
  config_broadcast_port :: jsval
  config_start :: jsval
  config_webcam :: "webcam_config option"

record livecam =
  gst_tcp_addr :: jsval
  gst_tcp_port :: jsval
  ui_addr :: jsval
  ui_port :: jsval
  broadcast_addr :: jsval
  broadcast_port :: jsval
  start :: jsval
  webcam :: webcam_config
  gst_cam_wrap :: "relay option"
  gst_cam_server :: "server option"
  gst_cam_process :: "child option"

definition assert_if :: "jsval \<Rightarrow> string \<Rightarrow> error + unit" where
  \<comment> \<open>\<open>if( v ) Assert.ok( typeof( v ), t )\<close>\<close>
  "assert_if v t = (if truthy v then Assert_ok (JStr (typeof v)) t else Inr ())"

definition LiveCam_with ::
  "(env \<Rightarrow> error + string option) \<Rightarrow> env \<Rightarrow> livecam_config \<Rightarrow> error + livecam" where
  \<comment> \<open>the constructor, lines 332 to 376 and 755 to 799\<close>
  "LiveCam_with get_path e config =
     (let this = \<lparr>gst_tcp_addr = js_or (config_gst_addr config) (JStr ''127.0.0.1''),
                  gst_tcp_port = js_or (config_gst_port config) (JNum 10000),
                  ui_addr = js_or (config_ui_addr config) (JStr ''127.0.0.1''),
                  ui_port = js_or (config_ui_port config) (JNum 11000),
                  broadcast_addr = js_or (config_broadcast_addr config) (JStr ''127.0.0.1''),
                  broadcast_port = js_or (config_broadcast_port config) (JNum 12000),
                  start = config_start config,
                  webcam = (case config_webcam config of None \<Rightarrow> no_config | Some w \<Rightarrow> w),
                  gst_cam_wrap = None, gst_cam_server = None, gst_cam_process = None\<rparr>
      in and_then (Assert_ok (JStr (typeof (JObject ''[object Object]''))) ''object'') (\<lambda>_.
         and_then (assert_if (start this) ''function'') (\<lambda>_.
         and_then (assert_if (broadcast_port this) ''number'') (\<lambda>_.
         and_then (assert_if (broadcast_addr this) ''string'') (\<lambda>_.
         and_then (assert_if (ui_port this) ''number'') (\<lambda>_.
         and_then (assert_if (ui_addr this) ''string'') (\<lambda>_.
         and_then (assert_if (gst_tcp_port this) ''number'') (\<lambda>_.
         and_then (assert_if (gst_tcp_addr this) ''string'') (\<lambda>_.
         and_then (assert_if (JObject ''[object Object]'') ''object'') (\<lambda>_.
         and_then (isAvailable_with get_path e) (\<lambda>available.
           (if \<not> available then Inl (Error ''Unable to broadcast.'') else Inr this))))))))))))"

definition LiveCam :: "env \<Rightarrow> livecam_config \<Rightarrow> error + livecam" where
  "LiveCam = LiveCam_with getPath"

definition LiveCam2 :: "env \<Rightarrow> livecam_config \<Rightarrow> error + livecam" where
  "LiveCam2 = LiveCam_with getPath2"

definition broadcast_with ::
  "(webcam_config \<Rightarrow> error + server) \<Rightarrow> (env \<Rightarrow> error + string option) \<Rightarrow> env \<Rightarrow> livecam
     \<Rightarrow> error + livecam" where
  \<comment> \<open>\<open>broadcast\<close>, up to the registration of the handlers\<close>
  "broadcast_with new_server get_path e this =
     and_then (new_server (webcam this)) (\<lambda>srv.
     and_then (start_with get_path e srv (gst_tcp_addr this) (gst_tcp_port this)) (\<lambda>proc.
       Inr (this\<lparr>gst_cam_wrap := Some SocketCamWrapper, gst_cam_server := Some srv,
                 gst_cam_process := Some proc\<rparr>)))"

definition broadcast :: "env \<Rightarrow> livecam \<Rightarrow> error + livecam" where
  "broadcast = broadcast_with GstLiveCamServer getPath"

definition broadcast2 :: "env \<Rightarrow> livecam \<Rightarrow> error + livecam" where
  "broadcast2 = broadcast_with GstLiveCamServer2 getPath2"

definition playing_marker :: string where
  "playing_marker = ''Setting pipeline to PLAYING''"

definition wrap :: "livecam \<Rightarrow> effects \<Rightarrow> effects" where
  \<comment> \<open>the call of \<open>wrap\<close> with the four addresses of the orchestrator; its own assertions
      test type names and pass, and the connection it opens completes later\<close>
  "wrap this fx =
     fx\<lparr>wrap_calls := wrap_calls fx @
          [(gst_tcp_addr this, gst_tcp_port this, broadcast_addr this, broadcast_port this)]\<rparr>"

definition call_start :: "jsval \<Rightarrow> effects \<Rightarrow> effects" where
  \<comment> \<open>\<open>if( f ) f()\<close>: calling a value that is not a function throws\<close>
  "call_start f fx =
     (if truthy f then
        (if typeof f = ''function'' then fx\<lparr>start_calls := Suc (start_calls fx)\<rparr>
         else fx\<lparr>uncaught := Some (TypeError ''start is not a function'')\<rparr>)
      else fx)"

definition on_stdout_data :: "livecam \<Rightarrow> effects \<Rightarrow> string \<Rightarrow> effects" where
  \<comment> \<open>first listing, lines 384 to 395: the callback is read as the bare identifier \<open>start\<close>\<close>
  "on_stdout_data this fx data =
     (if uncaught fx \<noteq> None then fx
      else if js_gt0 (JBool (str_includes data playing_marker)) then
        (let fx1 = wrap this fx
         in (case resolve (module_scope @ [''data'']) ''start'' of
               Inl ex \<Rightarrow> fx1\<lparr>uncaught := Some ex\<rparr>
             | Inr _ \<Rightarrow> call_start (start this) fx1))
      else fx)"

definition on_stdout_data2 :: "livecam \<Rightarrow> effects \<Rightarrow> string \<Rightarrow> effects" where
  \<comment> \<open>second listing, lines 807 to 816: the callback is \<open>this.start\<close>\<close>
  "on_stdout_data2 this fx data =
     (if uncaught fx \<noteq> None then fx
      else if js_gt0 (JBool (str_includes data playing_marker)) then
        call_start (start this) (wrap this fx)
      else fx)"

definition stdout_chunks :: "livecam \<Rightarrow> effects \<Rightarrow> string list \<Rightarrow> effects" where
  "stdout_chunks this fx chunks = foldl (on_stdout_data this) fx chunks"

definition stdout_chunks2 :: "livecam \<Rightarrow> effects \<Rightarrow> string list \<Rightarrow> effects" where
  "stdout_chunks2 this fx chunks = foldl (on_stdout_data2 this) fx chunks"

section \<open>Sample hosts\<close>

text \<open>
  Concrete surroundings on which the definitions are evaluated: a host of platform \<open>pf\<close>
  whose PATH lists two directories and whose file system holds exactly \<open>files\<close>. On the
  directory names used here, which are normalized already, the two path functions of the
  runtime are the identity and the joining of the segments with a slash. The subprocess
  call throws on an undefined file, yields no output for a file that does not exist, and
  the version banner otherwise.
\<close>

definition join_with_slash :: "string list \<Rightarrow> string" where
  "join_with_slash ps = foldr (\<lambda>a b. if b = [] then a else a @ ''/'' @ b) ps []"

definition version_banner :: string where
  "version_banner =
     ''gst-launch-1.0 version 1.16.2'' @ [CHR 0x0A] @ ''GStreamer 1.16.2'' @ [CHR 0x0A] @
     ''https://launchpad.net/distros/ubuntu/source'' @ [CHR 0x0A]"

definition host :: "string \<Rightarrow> string list \<Rightarrow> env" where
  "host pf files =
     \<lparr>PATH = Some ''/usr/local/bin:/usr/bin'',
      platform = pf,
      arch = ''x64'',
      GSTREAMER_1_0_ROOT_X86_64 = None,
      GSTREAMER_1_0_ROOT_X86 = None,
      FS_access = (\<lambda>p. List.member files p),
      Path_normalize = (\<lambda>p. p),
      Path_join = join_with_slash,
      SpawnSync = (\<lambda>file args timeout.
        (case file of
           None \<Rightarrow> Inl (TypeError ''The file argument must be of type string'')
         | Some p \<Rightarrow> if List.member files p then Inr (Some version_banner) else Inr None))\<rparr>"

section \<open>The search order as the specification states it\<close>


section \<open>Basic facts\<close>

lemma typeof_nonempty: "typeof v \<noteq> []"
  by (cases v) simp_all

lemma Assert_ok_typeof: "Assert_ok (JStr (typeof v)) t = Inr ()"
  by (simp add: Assert_ok_def typeof_nonempty)



lemma js_gt0_num: "js_gt0 (JNum n) = (0 < n)"
  by (simp add: js_gt0_def)

lemma str_includes_append: "str_includes (p @ t @ q) t"
proof (induction p)
  case Nil
  show ?case
  proof (cases "t @ q")
    case Nil
    then show ?thesis by (simp add: str_includes.simps)
  next
    case (Cons a list)
    have "prefix t (t @ q)" by simp
    with Cons show ?thesis by (simp add: str_includes.simps)
  qed
next
  case (Cons c p)
  then show ?case by (simp add: str_includes.simps)
qed

lemma str_includes_iff: "str_includes s t \<longleftrightarrow> (\<exists>p q. s = p @ t @ q)"
proof
  show "str_includes s t \<Longrightarrow> \<exists>p q. s = p @ t @ q"
  proof (induction s)
    case Nil
    then show ?case by (simp add: str_includes.simps)
  next
    case (Cons c cs)
    then show ?case
    proof (cases "prefix t (c # cs)")
      case True
      then obtain q where "c # cs = t @ q" by (auto simp: prefix_def)
      then have "c # cs = [] @ t @ q" by simp
      then show ?thesis by blast
    next
      case False
      with Cons obtain p q where "cs = p @ t @ q" by (auto simp: str_includes.simps)
      then have "c # cs = (c # p) @ t @ q" by simp
      then show ?thesis by blast
    qed
  qed
next
  show "\<exists>p q. s = p @ t @ q \<Longrightarrow> str_includes s t"
    using str_includes_append by auto
qed

subsection \<open>Printing a number and reading it back\<close>

text \<open>
  \<open>parseInt\<close> converts its argument to a string first. For a number the string is its
  decimal text, which reads back as the same number.
\<close>

lemma digit_char_cases:
  assumes "n < 10"
  shows "digit_val (digit_char n) = Some n" "is_digit 10 (digit_char n)"
    "\<not> is_space (digit_char n)" "digit_char n \<noteq> CHR ''-''" "digit_char n \<noteq> CHR ''+''"
    "digit_char n \<noteq> CHR ''x''" "digit_char n \<noteq> CHR ''X''"
proof -
  have upto: "n \<in> {0, 1, 2, 3, 4, 5, 6, 7, 8, 9}"
    using assms by (simp only: insert_iff empty_iff) arith
  have all: "digit_val (digit_char n) = Some n \<and> is_digit 10 (digit_char n) \<and>
    \<not> is_space (digit_char n) \<and> digit_char n \<noteq> CHR ''-'' \<and> digit_char n \<noteq> CHR ''+'' \<and>
    digit_char n \<noteq> CHR ''x'' \<and> digit_char n \<noteq> CHR ''X''"
    using upto
    by (elim insertE emptyE) (simp_all add: digit_char_def digit_val_def is_digit_def is_space_def)
  from all show "digit_val (digit_char n) = Some n" "is_digit 10 (digit_char n)"
    "\<not> is_space (digit_char n)" "digit_char n \<noteq> CHR ''-''" "digit_char n \<noteq> CHR ''+''"
    "digit_char n \<noteq> CHR ''x''" "digit_char n \<noteq> CHR ''X''"
    by simp_all
qed

lemma digits_value_append:
  "digits_value r acc (xs @ ys) = digits_value r (digits_value r acc xs) ys"
  by (induction xs arbitrary: acc) simp_all

lemma digits_of_nat_props:
  "digits_of_nat n \<noteq> [] \<and>
   list_all (\<lambda>c. is_digit 10 c \<and> \<not> is_space c \<and> c \<noteq> CHR ''-'' \<and> c \<noteq> CHR ''+'' \<and>
                c \<noteq> CHR ''x'' \<and> c \<noteq> CHR ''X'') (digits_of_nat n) \<and>
   digits_value 10 0 (digits_of_nat n) = n"
proof (induction n rule: digits_of_nat.induct)
  case (1 n)
  show ?case
  proof (cases "n < 10")
    case True
    then show ?thesis
      using digit_char_cases [of n] by (simp add: digits_of_nat.simps [of n])
  next
    case False
    have m: "n mod 10 < 10" by simp
    from False "1.IH" digit_char_cases [OF m] show ?thesis
      by (simp add: digits_of_nat.simps [of n] digits_value_append)
  qed
qed

lemma parseInt_str_plain:
  assumes "u \<noteq> []" "\<not> is_space (hd u)" "hd u \<noteq> CHR ''-''" "hd u \<noteq> CHR ''+''"
    and "take 2 u \<noteq> ''0x''" "take 2 u \<noteq> ''0X''" and "takeWhile (is_digit 10) u = u"
  shows "parseInt_str u = Some (int (digits_value 10 0 u))"
proof -
  have d: "dropWhile is_space u = u" using assms(1,2) by (cases u) simp_all
  show ?thesis
    unfolding parseInt_str_def Let_def d
    using assms(1,3,4,5,6) by (simp add: assms(7))
qed

lemma parseInt_str_minus:
  assumes "u \<noteq> []"
    and "take 2 u \<noteq> ''0x''" "take 2 u \<noteq> ''0X''" and "takeWhile (is_digit 10) u = u"
  shows "parseInt_str (CHR ''-'' # u) = Some (- int (digits_value 10 0 u))"
proof -
  have d: "dropWhile is_space (CHR ''-'' # u) = CHR ''-'' # u" by (simp add: is_space_def)
  show ?thesis
    unfolding parseInt_str_def Let_def d
    using assms(1,2,3) by (simp add: assms(4))
qed

lemma digits_plain:
  fixes n :: nat
  defines "u \<equiv> digits_of_nat n"
  shows "u \<noteq> []" "\<not> is_space (hd u)" "hd u \<noteq> CHR ''-''" "hd u \<noteq> CHR ''+''"
    "take 2 u \<noteq> ''0x''" "take 2 u \<noteq> ''0X''" "takeWhile (is_digit 10) u = u"
proof -
  have ne: "u \<noteq> []"
    and all: "list_all (\<lambda>c. is_digit 10 c \<and> \<not> is_space c \<and> c \<noteq> CHR ''-'' \<and> c \<noteq> CHR ''+'' \<and>
                c \<noteq> CHR ''x'' \<and> c \<noteq> CHR ''X'') u"
    using digits_of_nat_props [of n] by (simp_all add: u_def)
  from all have mem: "\<And>c. c \<in> set u \<Longrightarrow> is_digit 10 c \<and> \<not> is_space c \<and> c \<noteq> CHR ''-'' \<and>
      c \<noteq> CHR ''+'' \<and> c \<noteq> CHR ''x'' \<and> c \<noteq> CHR ''X''"
    by (simp add: list_all_iff)
  show "u \<noteq> []" by (rule ne)
  have hd: "hd u \<in> set u" using ne by simp
  from mem [OF hd] show "\<not> is_space (hd u)" "hd u \<noteq> CHR ''-''" "hd u \<noteq> CHR ''+''"
    by simp_all
  show "take 2 u \<noteq> ''0x''"
  proof
    assume "take 2 u = ''0x''"
    then have "CHR ''x'' \<in> set (take 2 u)" by simp
    then have "CHR ''x'' \<in> set u" by (rule in_set_takeD)
    with mem show False by blast
  qed
  show "take 2 u \<noteq> ''0X''"
  proof
    assume "take 2 u = ''0X''"
    then have "CHR ''X'' \<in> set (take 2 u)" by simp
    then have "CHR ''X'' \<in> set u" by (rule in_set_takeD)
    with mem show False by blast
  qed
  show "takeWhile (is_digit 10) u = u"
    using mem by (simp add: takeWhile_eq_all_conv)
qed

lemma parseInt_num: "parseInt (JNum n) = Some n"
proof (cases "n < 0")
  case False
  have "parseInt_str (digits_of_nat (nat n)) = Some (int (digits_value 10 0 (digits_of_nat (nat n))))"
    by (rule parseInt_str_plain) (rule digits_plain)+
  with False show ?thesis
    using digits_of_nat_props [of "nat n"] by (simp add: parseInt_def string_of_int_def)
next
  case True
  have "parseInt_str (CHR ''-'' # digits_of_nat (nat (- n))) =
      Some (- int (digits_value 10 0 (digits_of_nat (nat (- n)))))"
    by (rule parseInt_str_minus) (rule digits_plain)+
  with True show ?thesis
    using digits_of_nat_props [of "nat (- n)"] by (simp add: parseInt_def string_of_int_def)
qed


section \<open>The pipeline command\<close>

text \<open>
  No assertion of the constructor can fail: each one tests the name of a type, which is
  a string that is not empty. So the constructor returns an object for every
  configuration, and the object is the one below.
\<close>

lemma GstLiveCamServer_with_total:
  "GstLiveCamServer_with live c =
     Inr \<lparr>fake = js_or (fake c) (JBool False), width = js_or (width c) (JNum 800),
          height = js_or (height c) (JNum 600), framerate = js_or (framerate c) (JNum 30),
          grayscale = js_or (grayscale c) (JBool False),
          deviceIndex = js_or (deviceIndex c) (JNum (- 1)),
          gst_multipart_boundary = ''--videoboundary'',
          gst_video_src =
            build_video_src live (js_or (fake c) (JBool False)) (js_or (width c) (JNum 800))
              (js_or (height c) (JNum 600)) (js_or (framerate c) (JNum 30))
              (js_or (grayscale c) (JBool False))\<rparr>"
  by (simp add: GstLiveCamServer_with_def Let_def Assert_ok_def typeof_nonempty and_then_def)

lemma ctor_ex: "\<exists>srv. GstLiveCamServer_with live c = Inr srv"
  by (simp add: GstLiveCamServer_with_total)

lemma ctor_boundary:
  "GstLiveCamServer_with live c = Inr srv \<Longrightarrow> gst_multipart_boundary srv = ''--videoboundary''"
  by (auto simp: GstLiveCamServer_with_total)

lemma ctor_src:
  "GstLiveCamServer_with live c = Inr srv \<Longrightarrow>
   gst_video_src srv =
     build_video_src live (js_or (fake c) (JBool False)) (js_or (width c) (JNum 800))
       (js_or (height c) (JNum 600)) (js_or (framerate c) (JNum 30))
       (js_or (grayscale c) (JBool False))"
  by (auto simp: GstLiveCamServer_with_total)

lemma cam_pipeline_sink:
  "gst_multipart_boundary srv = ''--videoboundary'' \<Longrightarrow>
   cam_pipeline srv a p = gst_video_src srv @ sink_clause a p"
  by (simp add: cam_pipeline_def sink_clause_def)

lemma clause_texts:
  "scale_clause (JNum w) (JNum h) =
     '' ! videoscale ! video/x-raw,width='' @ string_of_int w @ '',height='' @ string_of_int h"
  "rate_clause (JNum f) = '' ! videorate ! video/x-raw,framerate='' @ string_of_int f @ ''/1''"
  by (simp_all add: scale_clause_def rate_clause_def parseInt_num number_text_def)

lemma number_texts:
  "string_of_int 640 = ''640''" "string_of_int 480 = ''480''" "string_of_int 15 = ''15''"
  "string_of_int 10000 = ''10000''"
  by (simp_all add: string_of_int_def digits_of_nat.simps digit_char_def)

lemma parseInt_samples:
  "parseInt (JNum 640) = Some 640" "parseInt (JNum 480) = Some 480"
  "parseInt (JNum 15) = Some 15"
  by (simp_all add: parseInt_def number_texts parseInt_str_def is_space_def is_digit_def
      digit_val_def Let_def)

lemma scenario_src:
  "build_video_src live (JBool True) (JNum 640) (JNum 480) (JNum 15) (JBool False) =
   ''videotestsrc ! videoscale ! video/x-raw,width=640,height=480 ! videorate ! video/x-raw,framerate=15/1''"
  by (simp add: build_video_src_def js_gt0_num scale_clause_def rate_clause_def parseInt_samples
      number_text_def number_texts)

text \<open>
  Claim C7. The configuration \<open>{fake:true, width:640, height:480, framerate:15,
  grayscale:false}\<close> is accepted, and the command string that \<open>start\<close> assembles from it is
  the synthetic source, the scale clause with \<open>width=640,height=480\<close>, the rate clause with
  \<open>framerate=15/1\<close> and then the encode, multiplex and sink clause with the boundary
  \<open>--videoboundary\<close> and the address and port that the caller passes. So it contains the
  first three and ends with the last.
\<close>

theorem pipeline_scenario:
  \<open>\<exists>srv. GstLiveCamServer \<lparr>fake = JBool True, width = JNum 640, height = JNum 480,
            framerate = JNum 15, grayscale = JBool False, deviceIndex = JUndefined\<rparr> = Inr srv \<and>
     cam_pipeline srv tcp_addr tcp_port =
       ''videotestsrc ! videoscale ! video/x-raw,width=640,height=480 ! videorate ! video/x-raw,framerate=15/1 ! jpegenc ! multipartmux  boundary="--videoboundary" ! tcpserversink host=''
       @ to_string tcp_addr @ '' port='' @ to_string tcp_port \<and>
     str_includes (cam_pipeline srv tcp_addr tcp_port) ''videotestsrc'' \<and>
     str_includes (cam_pipeline srv tcp_addr tcp_port)
       '' ! videoscale ! video/x-raw,width=640,height=480'' \<and>
     str_includes (cam_pipeline srv tcp_addr tcp_port)
       '' ! videorate ! video/x-raw,framerate=15/1'' \<and>
     suffix ('' ! jpegenc ! multipartmux  boundary="--videoboundary" ! tcpserversink host=''
             @ to_string tcp_addr @ '' port='' @ to_string tcp_port)
       (cam_pipeline srv tcp_addr tcp_port)\<close>
proof -
  let ?c = "\<lparr>fake = JBool True, width = JNum 640, height = JNum 480,
            framerate = JNum 15, grayscale = JBool False, deviceIndex = JUndefined\<rparr>"
  let ?tail = \<open>'' ! jpegenc ! multipartmux  boundary="--videoboundary" ! tcpserversink host=''
             @ to_string tcp_addr @ '' port='' @ to_string tcp_port\<close>
  obtain srv where srv: "GstLiveCamServer ?c = Inr srv"
    and src: "gst_video_src srv = build_video_src ''v4l2src ! decodebin'' (JBool True)
                (JNum 640) (JNum 480) (JNum 15) (JBool False)"
    and bnd: "gst_multipart_boundary srv = ''--videoboundary''"
    by (simp add: GstLiveCamServer_def GstLiveCamServer_with_total js_or_def)
  have cmd: "cam_pipeline srv tcp_addr tcp_port =
      ''videotestsrc ! videoscale ! video/x-raw,width=640,height=480 ! videorate ! video/x-raw,framerate=15/1''
      @ ?tail"
    by (simp add: cam_pipeline_def src bnd scenario_src)
  have i1: "str_includes (cam_pipeline srv tcp_addr tcp_port) ''videotestsrc''"
    unfolding cmd
    using str_includes_append [of "[]" "''videotestsrc''"
        "'' ! videoscale ! video/x-raw,width=640,height=480 ! videorate ! video/x-raw,framerate=15/1'' @ ?tail"]
    by simp
  have i2: "str_includes (cam_pipeline srv tcp_addr tcp_port)
      '' ! videoscale ! video/x-raw,width=640,height=480''"
    unfolding cmd
    using str_includes_append [of "''videotestsrc''"
        "'' ! videoscale ! video/x-raw,width=640,height=480''"
        "'' ! videorate ! video/x-raw,framerate=15/1'' @ ?tail"]
    by simp
  have i3: "str_includes (cam_pipeline srv tcp_addr tcp_port)
      '' ! videorate ! video/x-raw,framerate=15/1''"
    unfolding cmd
    using str_includes_append [of "''videotestsrc ! videoscale ! video/x-raw,width=640,height=480''"
        "'' ! videorate ! video/x-raw,framerate=15/1''" ?tail]
    by simp
  have s: "suffix ?tail (cam_pipeline srv tcp_addr tcp_port)"
    unfolding cmd by (rule suffix_appendI) simp
  from srv cmd i1 i2 i3 s show ?thesis by auto
qed



lemma deviceIndex_unused_with:
  "\<exists>s s'. GstLiveCamServer_with live c = Inr s \<and>
      GstLiveCamServer_with live (c\<lparr>deviceIndex := d\<rparr>) = Inr s' \<and>
      gst_video_src s' = gst_video_src s \<and>
      cam_pipeline s' tcp_addr tcp_port = cam_pipeline s tcp_addr tcp_port \<and>
      start_with get_path e s' tcp_addr tcp_port = start_with get_path e s tcp_addr tcp_port \<and>
      str_split CHR '' '' (cam_pipeline s' tcp_addr tcp_port) =
        str_split CHR '' '' (cam_pipeline s tcp_addr tcp_port)"
proof -
  obtain s where s: "GstLiveCamServer_with live c = Inr s"
    using ctor_ex by blast
  obtain s' where s': "GstLiveCamServer_with live (c\<lparr>deviceIndex := d\<rparr>) = Inr s'"
    using ctor_ex by blast
  have v: "gst_video_src s' = gst_video_src s"
    using ctor_src [OF s] ctor_src [OF s'] by simp
  have p: "cam_pipeline s' tcp_addr tcp_port = cam_pipeline s tcp_addr tcp_port"
    using cam_pipeline_sink [OF ctor_boundary [OF s]] cam_pipeline_sink [OF ctor_boundary [OF s']] v
    by simp
  have st: "start_with get_path e s' tcp_addr tcp_port = start_with get_path e s tcp_addr tcp_port"
    unfolding start_with_def p by (rule refl)
  from s s' v p st show ?thesis by simp
qed

text \<open>
  Claim C9. In both listings, two configurations that differ in the device index only
  give the same source text, the same command string, the same result of \<open>start\<close> on every
  host, and so the same argument list for the child process.
\<close>

theorem deviceIndex_unused:
  "(\<exists>s s'. GstLiveCamServer c = Inr s \<and> GstLiveCamServer (c\<lparr>deviceIndex := d\<rparr>) = Inr s' \<and>
      gst_video_src s' = gst_video_src s \<and>
      cam_pipeline s' tcp_addr tcp_port = cam_pipeline s tcp_addr tcp_port \<and>
      start_with get_path e s' tcp_addr tcp_port = start_with get_path e s tcp_addr tcp_port \<and>
      str_split CHR '' '' (cam_pipeline s' tcp_addr tcp_port) =
        str_split CHR '' '' (cam_pipeline s tcp_addr tcp_port)) \<and>
   (\<exists>s s'. GstLiveCamServer2 c = Inr s \<and> GstLiveCamServer2 (c\<lparr>deviceIndex := d\<rparr>) = Inr s' \<and>
      gst_video_src s' = gst_video_src s \<and>
      cam_pipeline s' tcp_addr tcp_port = cam_pipeline s tcp_addr tcp_port \<and>
      start_with get_path e s' tcp_addr tcp_port = start_with get_path e s tcp_addr tcp_port \<and>
      str_split CHR '' '' (cam_pipeline s' tcp_addr tcp_port) =
        str_split CHR '' '' (cam_pipeline s tcp_addr tcp_port))"
  unfolding GstLiveCamServer_def GstLiveCamServer2_def
  using deviceIndex_unused_with [of "''v4l2src ! decodebin''" c d tcp_addr tcp_port get_path e]
    deviceIndex_unused_with [of "''-v ksvideosrc do-stats=TRUE''" c d tcp_addr tcp_port get_path e]
  by (rule conjI)






lemma linux_host_path:
  "getPath (host ''linux'' [''/usr/bin/gst-launch-1.0'']) = Inr (Some ''/usr/bin/gst-launch-1.0'')"
  by code_simp

lemma linux_host_version:
  "getVersion_with getPath (host ''linux'' [''/usr/bin/gst-launch-1.0'']) = Inr (Some ''1.16.2'')"
  by code_simp

lemma linux_host_available:
  "isAvailable_with getPath (host ''linux'' [''/usr/bin/gst-launch-1.0'']) = Inr True"
  by code_simp





section \<open>The launcher\<close>

text \<open>
  With the \<open>try\<close> block resolved, the version query is a plain case distinction: whatever
  the search for the executable and the subprocess call do, the result is a value.
\<close>

lemma getVersion_with_closed:
  "getVersion_with get_path e =
     Inr (case get_path e of
            Inl ex \<Rightarrow> None
          | Inr gst_launch_path \<Rightarrow>
              (case SpawnSync e gst_launch_path [gst_launch_versionarg] 1000 of
                 Inl ex \<Rightarrow> None
               | Inr None \<Rightarrow> None
               | Inr (Some out) \<Rightarrow>
                   if str_includes out ''GStreamer''
                   then map_option strip_word (match_version out) else None))"
  by (simp add: getVersion_with_def query_version_def and_then_def Assert_ok_def typeof_nonempty
      split: sum.splits option.splits)

text \<open>
  Claim C6. In both listings \<open>getVersion\<close> returns to its caller on every host: when the
  search for the executable throws, when the subprocess call throws (as it does for an
  undefined path), when the call yields no output, when the output lacks the word
  \<open>GStreamer\<close> and when the pattern finds no match in it, the result is undefined. The
  result is a string only when the output matches, and it is then the match with the
  word and the blanks after it removed: \<open>1.16.2\<close> for the banner of that version.
\<close>

theorem getVersion_never_throws:
  "(\<exists>v. getVersion e = Inr v) \<and> (\<exists>v. getVersion2 e = Inr v) \<and>
   getVersion e =
     Inr (case getPath e of
            Inl ex \<Rightarrow> None
          | Inr gst_launch_path \<Rightarrow>
              (case SpawnSync e gst_launch_path [gst_launch_versionarg] 1000 of
                 Inl ex \<Rightarrow> None
               | Inr None \<Rightarrow> None
               | Inr (Some out) \<Rightarrow>
                   if str_includes out ''GStreamer''
                   then map_option strip_word (match_version out) else None)) \<and>
   getVersion2 e =
     Inr (case getPath2 e of
            Inl ex \<Rightarrow> None
          | Inr gst_launch_path \<Rightarrow>
              (case SpawnSync e gst_launch_path [gst_launch_versionarg] 1000 of
                 Inl ex \<Rightarrow> None
               | Inr None \<Rightarrow> None
               | Inr (Some out) \<Rightarrow>
                   if str_includes out ''GStreamer''
                   then map_option strip_word (match_version out) else None)) \<and>
   getVersion (host ''linux'' [''/usr/bin/gst-launch-1.0'']) = Inr (Some ''1.16.2'')"
  unfolding getVersion_def getVersion2_def
  using getVersion_with_closed [of getPath e] getVersion_with_closed [of getPath2 e]
    linux_host_version
  by simp

lemma assert_if_total: "assert_if v t = Inr ()"
  by (simp add: assert_if_def Assert_ok_def typeof_nonempty)

lemma LiveCam_with_eq:
  "LiveCam_with get_path e config =
     and_then (isAvailable_with get_path e) (\<lambda>available.
       if \<not> available then Inl (Error ''Unable to broadcast.'')
       else Inr \<lparr>gst_tcp_addr = js_or (config_gst_addr config) (JStr ''127.0.0.1''),
                  gst_tcp_port = js_or (config_gst_port config) (JNum 10000),
                  ui_addr = js_or (config_ui_addr config) (JStr ''127.0.0.1''),
                  ui_port = js_or (config_ui_port config) (JNum 11000),
                  broadcast_addr = js_or (config_broadcast_addr config) (JStr ''127.0.0.1''),
                  broadcast_port = js_or (config_broadcast_port config) (JNum 12000),
                  start = config_start config,
                  webcam = (case config_webcam config of None \<Rightarrow> no_config | Some w \<Rightarrow> w),
                  gst_cam_wrap = None, gst_cam_server = None, gst_cam_process = None\<rparr>)"
  by (simp add: LiveCam_with_def Let_def assert_if_total Assert_ok_def and_then_def)

lemma unavailable_with:
  assumes "getVersion_with get_path e = Inr None"
  shows "isAvailable_with get_path e = Inr False"
    and "LiveCam_with get_path e config = Inl (Error ''Unable to broadcast.'')"
  using assms by (simp_all add: isAvailable_with_def LiveCam_with_eq and_then_def)

text \<open>
  Claim C4. In both listings, when the version query yields undefined, \<open>isAvailable\<close>
  returns false and the constructor of the orchestrator throws the error
  \<open>Unable to broadcast.\<close>, whatever the configuration.
\<close>

theorem unavailable_is_fatal:
  "(getVersion e = Inr None \<longrightarrow>
      isAvailable e = Inr False \<and> LiveCam e config = Inl (Error ''Unable to broadcast.'')) \<and>
   (getVersion2 e = Inr None \<longrightarrow>
      isAvailable2 e = Inr False \<and> LiveCam2 e config = Inl (Error ''Unable to broadcast.''))"
  unfolding getVersion_def getVersion2_def isAvailable_def isAvailable2_def LiveCam_def LiveCam2_def
  using unavailable_with(1) [of getPath e] unavailable_with(2) [of getPath e config]
    unavailable_with(1) [of getPath2 e] unavailable_with(2) [of getPath2 e config]
  by blast

lemma bare_host_version:
  "getVersion (host ''linux'' []) = Inr None" "getVersion2 (host ''linux'' []) = Inr None"
  by code_simp+

text \<open>
  A host without the executable: the version query yields undefined in both listings,
  and both constructors throw.
\<close>

theorem unavailable_is_fatal_witness:
  "getVersion (host ''linux'' []) = Inr None \<and>
   isAvailable (host ''linux'' []) = Inr False \<and>
   LiveCam (host ''linux'' [])
     \<lparr>config_gst_addr = JUndefined, config_gst_port = JUndefined, config_ui_addr = JUndefined,
      config_ui_port = JUndefined, config_broadcast_addr = JUndefined,
      config_broadcast_port = JUndefined, config_start = JUndefined, config_webcam = None\<rparr> =
     Inl (Error ''Unable to broadcast.'') \<and>
   getVersion2 (host ''linux'' []) = Inr None \<and>
   isAvailable2 (host ''linux'' []) = Inr False \<and>
   LiveCam2 (host ''linux'' [])
     \<lparr>config_gst_addr = JUndefined, config_gst_port = JUndefined, config_ui_addr = JUndefined,
      config_ui_port = JUndefined, config_broadcast_addr = JUndefined,
      config_broadcast_port = JUndefined, config_start = JUndefined, config_webcam = None\<rparr> =
     Inl (Error ''Unable to broadcast.'')"
  using unavailable_is_fatal [of "host ''linux'' []"
      "\<lparr>config_gst_addr = JUndefined, config_gst_port = JUndefined, config_ui_addr = JUndefined,
      config_ui_port = JUndefined, config_broadcast_addr = JUndefined,
      config_broadcast_port = JUndefined, config_start = JUndefined, config_webcam = None\<rparr>"]
    bare_host_version
  by simp

subsection \<open>The search for the executable\<close>




text \<open>
  In the second listing the loops over PATH read the executable's name as a bare
  identifier that no scope declares. The \<open>catch\<close> swallows the ReferenceError, so these
  loops never find anything.
\<close>

lemma unbound_executable:
  "resolve (module_scope2 @ [''detected_path'', ''detected_path_x64'', ''detected_path_x32'',
      ''path_dirs'', ''index'', ''base'', ''bin'']) ''gst_launch_executable'' =
   Inl (ReferenceError ''gst_launch_executable is not defined'')"
  by code_simp

lemma probe2_throws: "probe2 e ext dir = Inl (ReferenceError ''gst_launch_executable is not defined'')"
  by (simp add: probe2_def unbound_executable and_then_def Let_def)

lemma getPath_loop2_keeps: "getPath_loop2 e ext dirs detected_path = detected_path"
  by (induction dirs arbitrary: detected_path) (simp_all add: probe2_throws)

lemma getPath2_linux:
  assumes "platform e = ''linux''" and "PATH e = Some p"
  shows "getPath2 e = Inr None"
  using assms by (simp add: getPath2_def getPath_loop2_keeps)





section \<open>Configuration checks\<close>

text \<open>
  Claim C2 says that a field of the wrong type makes construction throw. The assertions
  of both constructors pass the name of the field's type as the value to test and the
  expected name as the message, so they hold for every value. Here a string width and a
  number as grayscale flag are accepted by the constructor of the pipeline, and a number
  as start callback, a string as port and a number as address by the constructor of the
  orchestrator.
\<close>

theorem type_assertions_never_fail:
  "GstLiveCamServer \<lparr>fake = JUndefined, width = JStr ''640'', height = JUndefined,
       framerate = JUndefined, grayscale = JNum 1, deviceIndex = JUndefined\<rparr> =
     Inr \<lparr>fake = JBool False, width = JStr ''640'', height = JNum 600, framerate = JNum 30,
          grayscale = JNum 1, deviceIndex = JNum (- 1),
          gst_multipart_boundary = ''--videoboundary'',
          gst_video_src = ''v4l2src ! decodebin ! videoscale ! video/x-raw,width=640,height=600 ! videorate ! video/x-raw,framerate=30/1 ! videobalance saturation=0.0 ! videoconvert''\<rparr> \<and>
   LiveCam (host ''linux'' [''/usr/bin/gst-launch-1.0''])
     \<lparr>config_gst_addr = JUndefined, config_gst_port = JStr ''10000'', config_ui_addr = JUndefined,
      config_ui_port = JUndefined, config_broadcast_addr = JNum 7,
      config_broadcast_port = JUndefined, config_start = JNum 5, config_webcam = None\<rparr> =
     Inr \<lparr>gst_tcp_addr = JStr ''127.0.0.1'', gst_tcp_port = JStr ''10000'',
          ui_addr = JStr ''127.0.0.1'', ui_port = JNum 11000,
          broadcast_addr = JNum 7, broadcast_port = JNum 12000,
          start = JNum 5, webcam = no_config,
          gst_cam_wrap = None, gst_cam_server = None, gst_cam_process = None\<rparr>"
proof -
  have texts: "string_of_int 600 = ''600''" "string_of_int 30 = ''30''"
    by (simp_all add: string_of_int_def digits_of_nat.simps digit_char_def)
  have ints: "parseInt (JStr ''640'') = Some 640" "parseInt (JNum 600) = Some 600"
    "parseInt (JNum 30) = Some 30"
    by (simp_all add: parseInt_def texts parseInt_str_def is_space_def is_digit_def
        digit_val_def Let_def)
  have gt: "js_gt0 (JStr ''640'')"
    by (simp add: js_gt0_def str_to_number_def trim_def unsigned_numeral_def is_space_def
        is_digit_def digit_val_def Let_def)
  have srv: "build_video_src ''v4l2src ! decodebin'' (JBool False) (JStr ''640'') (JNum 600)
      (JNum 30) (JNum 1) =
      ''v4l2src ! decodebin ! videoscale ! video/x-raw,width=640,height=600 ! videorate ! video/x-raw,framerate=30/1 ! videobalance saturation=0.0 ! videoconvert''"
    by (simp add: build_video_src_def gt js_gt0_num scale_clause_def rate_clause_def ints
        number_text_def number_texts texts gray_clause_def)
  have a: "GstLiveCamServer \<lparr>fake = JUndefined, width = JStr ''640'', height = JUndefined,
       framerate = JUndefined, grayscale = JNum 1, deviceIndex = JUndefined\<rparr> =
     Inr \<lparr>fake = JBool False, width = JStr ''640'', height = JNum 600, framerate = JNum 30,
          grayscale = JNum 1, deviceIndex = JNum (- 1),
          gst_multipart_boundary = ''--videoboundary'',
          gst_video_src = ''v4l2src ! decodebin ! videoscale ! video/x-raw,width=640,height=600 ! videorate ! video/x-raw,framerate=30/1 ! videobalance saturation=0.0 ! videoconvert''\<rparr>"
    by (simp add: GstLiveCamServer_def GstLiveCamServer_with_total js_or_def srv)
  have b: "LiveCam (host ''linux'' [''/usr/bin/gst-launch-1.0''])
     \<lparr>config_gst_addr = JUndefined, config_gst_port = JStr ''10000'', config_ui_addr = JUndefined,
      config_ui_port = JUndefined, config_broadcast_addr = JNum 7,
      config_broadcast_port = JUndefined, config_start = JNum 5, config_webcam = None\<rparr> =
     Inr \<lparr>gst_tcp_addr = JStr ''127.0.0.1'', gst_tcp_port = JStr ''10000'',
          ui_addr = JStr ''127.0.0.1'', ui_port = JNum 11000,
          broadcast_addr = JNum 7, broadcast_port = JNum 12000,
          start = JNum 5, webcam = no_config,
          gst_cam_wrap = None, gst_cam_server = None, gst_cam_process = None\<rparr>"
    by (simp add: LiveCam_def LiveCam_with_eq linux_host_available and_then_def js_or_def)
  from a b show ?thesis by (rule conjI)
qed

section \<open>The readiness marker\<close>

lemma js_gt0_bool: "js_gt0 (JBool b) = b"
  by (simp add: js_gt0_def)

lemma function_truthy: "typeof f = ''function'' \<Longrightarrow> truthy f"
  by (cases f) simp_all

lemma unbound_start:
  "resolve (module_scope @ [''data'']) ''start'' = Inl (ReferenceError ''start is not defined'')"
  by code_simp

lemma on_stdout_data_eq:
  "on_stdout_data this fx d =
     (if uncaught fx \<noteq> None then fx
      else if str_includes d playing_marker
      then (wrap this fx)\<lparr>uncaught := Some (ReferenceError ''start is not defined'')\<rparr>
      else fx)"
  by (simp add: on_stdout_data_def js_gt0_bool unbound_start Let_def)

lemma on_stdout_data_no_start: "start_calls (on_stdout_data this fx d) = start_calls fx"
  by (simp add: on_stdout_data_eq wrap_def)

lemma stdout_chunks_no_start:
  "start_calls (stdout_chunks this fx chunks) = start_calls fx"
  unfolding stdout_chunks_def
  by (induction chunks arbitrary: fx) (simp_all add: on_stdout_data_no_start)

lemma on_stdout_data2_step:
  "(wrap_calls (on_stdout_data2 this fx d) \<noteq> []) =
     (wrap_calls fx \<noteq> [] \<or> (uncaught fx = None \<and> str_includes d playing_marker))"
  "(0 < start_calls (on_stdout_data2 this fx d)) =
     (0 < start_calls fx \<or>
      (uncaught fx = None \<and> typeof (start this) = ''function'' \<and>
       str_includes d playing_marker))"
  "uncaught (on_stdout_data2 this fx d) = None \<Longrightarrow> uncaught fx = None"
  "uncaught fx = None \<Longrightarrow> \<not> str_includes d playing_marker \<Longrightarrow>
     uncaught (on_stdout_data2 this fx d) = None"
  by (auto simp: on_stdout_data2_def js_gt0_bool wrap_def call_start_def function_truthy
      split: if_splits)

lemma wrap_calls2:
  "(wrap_calls (foldl (on_stdout_data2 this) fx chunks) \<noteq> []) =
     (wrap_calls fx \<noteq> [] \<or>
      (uncaught fx = None \<and> list_ex (\<lambda>d. str_includes d playing_marker) chunks))"
proof (induction chunks arbitrary: fx)
  case Nil
  show ?case by simp
next
  case (Cons d ds)
  have "foldl (on_stdout_data2 this) fx (d # ds) =
      foldl (on_stdout_data2 this) (on_stdout_data2 this fx d) ds"
    by simp
  then show ?case
    using Cons.IH [of "on_stdout_data2 this fx d"] on_stdout_data2_step [where this = this and fx = fx and d = d]
    by (simp only: list_ex_Cons_iff) blast
qed

lemma start_calls2:
  "(0 < start_calls (foldl (on_stdout_data2 this) fx chunks)) =
     (0 < start_calls fx \<or>
      (uncaught fx = None \<and> typeof (start this) = ''function'' \<and>
       list_ex (\<lambda>d. str_includes d playing_marker) chunks))"
proof (induction chunks arbitrary: fx)
  case Nil
  show ?case by simp
next
  case (Cons d ds)
  have "foldl (on_stdout_data2 this) fx (d # ds) =
      foldl (on_stdout_data2 this) (on_stdout_data2 this fx d) ds"
    by simp
  then show ?case
    using Cons.IH [of "on_stdout_data2 this fx d"] on_stdout_data2_step [where this = this and fx = fx and d = d]
    by (simp only: list_ex_Cons_iff) blast
qed

lemma relay_starts_on_marker2:
  "(wrap_calls (stdout_chunks2 this no_effects chunks) \<noteq> []) =
     list_ex (\<lambda>d. str_includes d playing_marker) chunks"
  "(0 < start_calls (stdout_chunks2 this no_effects chunks)) =
     (typeof (start this) = ''function'' \<and> list_ex (\<lambda>d. str_includes d playing_marker) chunks)"
  by (simp_all add: stdout_chunks2_def wrap_calls2 start_calls2 no_effects_def)

lemma marker_sample: "str_includes ''Setting pipeline to PLAYING ...'' playing_marker"
  by code_simp

subsection \<open>A run from construction to the marker\<close>

lemma default_server:
  "GstLiveCamServer_with live no_config =
     Inr \<lparr>fake = JBool False, width = JNum 800, height = JNum 600, framerate = JNum 30,
          grayscale = JBool False, deviceIndex = JNum (- 1),
          gst_multipart_boundary = ''--videoboundary'',
          gst_video_src =
            live @ '' ! videoscale ! video/x-raw,width=800,height=600 ! videorate ! video/x-raw,framerate=30/1''\<rparr>"
proof -
  have texts: "string_of_int 800 = ''800''" "string_of_int 600 = ''600''"
    "string_of_int 30 = ''30''"
    by (simp_all add: string_of_int_def digits_of_nat.simps digit_char_def)
  show ?thesis
    by (simp add: GstLiveCamServer_with_total no_config_def js_or_def
        build_video_src_def js_gt0_num Let_def clause_texts texts)
qed

lemma default_split:
  \<open>str_split CHR '' '' ''v4l2src ! decodebin ! videoscale ! video/x-raw,width=800,height=600 ! videorate ! video/x-raw,framerate=30/1 ! jpegenc ! multipartmux  boundary="--videoboundary" ! tcpserversink host=127.0.0.1 port=10000'' =
   [''v4l2src'', ''!'', ''decodebin'', ''!'', ''videoscale'', ''!'',
    ''video/x-raw,width=800,height=600'', ''!'', ''videorate'', ''!'',
    ''video/x-raw,framerate=30/1'', ''!'', ''jpegenc'', ''!'', ''multipartmux'', [],
    ''boundary="--videoboundary"'', ''!'', ''tcpserversink'', ''host=127.0.0.1'', ''port=10000'']\<close>
  by code_simp

lemma default_split2:
  \<open>str_split CHR '' '' ''-v ksvideosrc do-stats=TRUE ! videoscale ! video/x-raw,width=800,height=600 ! videorate ! video/x-raw,framerate=30/1 ! jpegenc ! multipartmux  boundary="--videoboundary" ! tcpserversink host=127.0.0.1 port=10000'' =
   [''-v'', ''ksvideosrc'', ''do-stats=TRUE'', ''!'', ''videoscale'', ''!'',
    ''video/x-raw,width=800,height=600'', ''!'', ''videorate'', ''!'',
    ''video/x-raw,framerate=30/1'', ''!'', ''jpegenc'', ''!'', ''multipartmux'', [],
    ''boundary="--videoboundary"'', ''!'', ''tcpserversink'', ''host=127.0.0.1'', ''port=10000'']\<close>
  by code_simp

lemma darwin_host:
  "getPath2 (host ''darwin'' [''/usr/local/bin/gst-launch-1.0'']) =
     Inr (Some ''/usr/local/bin/gst-launch-1.0'')"
  "getVersion_with getPath2 (host ''darwin'' [''/usr/local/bin/gst-launch-1.0'']) =
     Inr (Some ''1.16.2'')"
  "isAvailable_with getPath2 (host ''darwin'' [''/usr/local/bin/gst-launch-1.0'']) = Inr True"
  by code_simp+

lemma sample_orchestrator:
  "LiveCam (host ''linux'' [''/usr/bin/gst-launch-1.0''])
     \<lparr>config_gst_addr = JUndefined, config_gst_port = JUndefined, config_ui_addr = JUndefined,
      config_ui_port = JUndefined, config_broadcast_addr = JUndefined,
      config_broadcast_port = JUndefined, config_start = JFunc ''() => {}'',
      config_webcam = None\<rparr> =
   Inr \<lparr>gst_tcp_addr = JStr ''127.0.0.1'', gst_tcp_port = JNum 10000,
        ui_addr = JStr ''127.0.0.1'', ui_port = JNum 11000,
        broadcast_addr = JStr ''127.0.0.1'', broadcast_port = JNum 12000,
        start = JFunc ''() => {}'', webcam = no_config,
        gst_cam_wrap = None, gst_cam_server = None, gst_cam_process = None\<rparr>"
  by (simp add: LiveCam_def LiveCam_with_eq linux_host_available and_then_def js_or_def)

lemma sample_orchestrator2:
  "LiveCam2 (host ''darwin'' [''/usr/local/bin/gst-launch-1.0''])
     \<lparr>config_gst_addr = JUndefined, config_gst_port = JUndefined, config_ui_addr = JUndefined,
      config_ui_port = JUndefined, config_broadcast_addr = JUndefined,
      config_broadcast_port = JUndefined, config_start = JFunc ''() => {}'',
      config_webcam = None\<rparr> =
   Inr \<lparr>gst_tcp_addr = JStr ''127.0.0.1'', gst_tcp_port = JNum 10000,
        ui_addr = JStr ''127.0.0.1'', ui_port = JNum 11000,
        broadcast_addr = JStr ''127.0.0.1'', broadcast_port = JNum 12000,
        start = JFunc ''() => {}'', webcam = no_config,
        gst_cam_wrap = None, gst_cam_server = None, gst_cam_process = None\<rparr>"
  by (simp add: LiveCam2_def LiveCam_with_eq darwin_host and_then_def js_or_def)

lemma sample_broadcast:
  \<open>broadcast (host ''linux'' [''/usr/bin/gst-launch-1.0''])
     \<lparr>gst_tcp_addr = JStr ''127.0.0.1'', gst_tcp_port = JNum 10000,
      ui_addr = JStr ''127.0.0.1'', ui_port = JNum 11000,
      broadcast_addr = JStr ''127.0.0.1'', broadcast_port = JNum 12000,
      start = JFunc ''() => {}'', webcam = no_config,
      gst_cam_wrap = None, gst_cam_server = None, gst_cam_process = None\<rparr> =
   Inr \<lparr>gst_tcp_addr = JStr ''127.0.0.1'', gst_tcp_port = JNum 10000,
        ui_addr = JStr ''127.0.0.1'', ui_port = JNum 11000,
        broadcast_addr = JStr ''127.0.0.1'', broadcast_port = JNum 12000,
        start = JFunc ''() => {}'', webcam = no_config,
        gst_cam_wrap = Some SocketCamWrapper,
        gst_cam_server = Some
          \<lparr>fake = JBool False, width = JNum 800, height = JNum 600, framerate = JNum 30,
           grayscale = JBool False, deviceIndex = JNum (- 1),
           gst_multipart_boundary = ''--videoboundary'',
           gst_video_src = ''v4l2src ! decodebin ! videoscale ! video/x-raw,width=800,height=600 ! videorate ! video/x-raw,framerate=30/1''\<rparr>,
        gst_cam_process = Some
          \<lparr>spawnfile = ''/usr/bin/gst-launch-1.0'',
           spawnargs = [''v4l2src'', ''!'', ''decodebin'', ''!'', ''videoscale'', ''!'',
             ''video/x-raw,width=800,height=600'', ''!'', ''videorate'', ''!'',
             ''video/x-raw,framerate=30/1'', ''!'', ''jpegenc'', ''!'', ''multipartmux'', [],
             ''boundary="--videoboundary"'', ''!'', ''tcpserversink'', ''host=127.0.0.1'',
             ''port=10000'']\<rparr>\<rparr>\<close>
proof -
  have cmd: \<open>cam_pipeline
      \<lparr>fake = JBool False, width = JNum 800, height = JNum 600, framerate = JNum 30,
       grayscale = JBool False, deviceIndex = JNum (- 1),
       gst_multipart_boundary = ''--videoboundary'',
       gst_video_src = ''v4l2src ! decodebin ! videoscale ! video/x-raw,width=800,height=600 ! videorate ! video/x-raw,framerate=30/1''\<rparr>
      (JStr ''127.0.0.1'') (JNum 10000) =
      ''v4l2src ! decodebin ! videoscale ! video/x-raw,width=800,height=600 ! videorate ! video/x-raw,framerate=30/1 ! jpegenc ! multipartmux  boundary="--videoboundary" ! tcpserversink host=127.0.0.1 port=10000''\<close>
    by (simp add: cam_pipeline_def number_texts)
  have srv: "GstLiveCamServer no_config = Inr
      \<lparr>fake = JBool False, width = JNum 800, height = JNum 600, framerate = JNum 30,
       grayscale = JBool False, deviceIndex = JNum (- 1),
       gst_multipart_boundary = ''--videoboundary'',
       gst_video_src = ''v4l2src ! decodebin ! videoscale ! video/x-raw,width=800,height=600 ! videorate ! video/x-raw,framerate=30/1''\<rparr>"
    using default_server [of "''v4l2src ! decodebin''"] by (simp add: GstLiveCamServer_def)
  show ?thesis
    unfolding broadcast_def broadcast_with_def
    by (simp add: srv and_then_def start_with_def spawnPipeline_with_def cmd default_split
        Assert_ok_def linux_host_available linux_host_path linux_host_version path_value_def)
qed

lemma sample_broadcast2:
  \<open>broadcast2 (host ''darwin'' [''/usr/local/bin/gst-launch-1.0''])
     \<lparr>gst_tcp_addr = JStr ''127.0.0.1'', gst_tcp_port = JNum 10000,
      ui_addr = JStr ''127.0.0.1'', ui_port = JNum 11000,
      broadcast_addr = JStr ''127.0.0.1'', broadcast_port = JNum 12000,
      start = JFunc ''() => {}'', webcam = no_config,
      gst_cam_wrap = None, gst_cam_server = None, gst_cam_process = None\<rparr> =
   Inr \<lparr>gst_tcp_addr = JStr ''127.0.0.1'', gst_tcp_port = JNum 10000,
        ui_addr = JStr ''127.0.0.1'', ui_port = JNum 11000,
        broadcast_addr = JStr ''127.0.0.1'', broadcast_port = JNum 12000,
        start = JFunc ''() => {}'', webcam = no_config,
        gst_cam_wrap = Some SocketCamWrapper,
        gst_cam_server = Some
          \<lparr>fake = JBool False, width = JNum 800, height = JNum 600, framerate = JNum 30,
           grayscale = JBool False, deviceIndex = JNum (- 1),
           gst_multipart_boundary = ''--videoboundary'',
           gst_video_src = ''-v ksvideosrc do-stats=TRUE ! videoscale ! video/x-raw,width=800,height=600 ! videorate ! video/x-raw,framerate=30/1''\<rparr>,
        gst_cam_process = Some
          \<lparr>spawnfile = ''/usr/local/bin/gst-launch-1.0'',
           spawnargs = [''-v'', ''ksvideosrc'', ''do-stats=TRUE'', ''!'', ''videoscale'', ''!'',
             ''video/x-raw,width=800,height=600'', ''!'', ''videorate'', ''!'',
             ''video/x-raw,framerate=30/1'', ''!'', ''jpegenc'', ''!'', ''multipartmux'', [],
             ''boundary="--videoboundary"'', ''!'', ''tcpserversink'', ''host=127.0.0.1'',
             ''port=10000'']\<rparr>\<rparr>\<close>
proof -
  have cmd: \<open>cam_pipeline
      \<lparr>fake = JBool False, width = JNum 800, height = JNum 600, framerate = JNum 30,
       grayscale = JBool False, deviceIndex = JNum (- 1),
       gst_multipart_boundary = ''--videoboundary'',
       gst_video_src = ''-v ksvideosrc do-stats=TRUE ! videoscale ! video/x-raw,width=800,height=600 ! videorate ! video/x-raw,framerate=30/1''\<rparr>
      (JStr ''127.0.0.1'') (JNum 10000) =
      ''-v ksvideosrc do-stats=TRUE ! videoscale ! video/x-raw,width=800,height=600 ! videorate ! video/x-raw,framerate=30/1 ! jpegenc ! multipartmux  boundary="--videoboundary" ! tcpserversink host=127.0.0.1 port=10000''\<close>
    by (simp add: cam_pipeline_def number_texts)
  have srv: "GstLiveCamServer2 no_config = Inr
      \<lparr>fake = JBool False, width = JNum 800, height = JNum 600, framerate = JNum 30,
       grayscale = JBool False, deviceIndex = JNum (- 1),
       gst_multipart_boundary = ''--videoboundary'',
       gst_video_src = ''-v ksvideosrc do-stats=TRUE ! videoscale ! video/x-raw,width=800,height=600 ! videorate ! video/x-raw,framerate=30/1''\<rparr>"
    using default_server [of "''-v ksvideosrc do-stats=TRUE''"] by (simp add: GstLiveCamServer2_def)
  show ?thesis
    unfolding broadcast2_def broadcast_with_def
    by (simp add: srv and_then_def start_with_def spawnPipeline_with_def cmd default_split2
        Assert_ok_def darwin_host path_value_def)
qed


text \<open>
  Claim C3 says that the relay is started, and the start callback called, exactly when a
  chunk with the marker has been seen. The second listing does so, as
  \<open>relay_starts_on_marker2\<close> shows for every sequence of chunks. The first listing calls
  \<open>wrap\<close> and then reads the callback as the bare identifier \<open>start\<close>, which no scope
  declares. Below, an orchestrator is constructed with a start callback and defaults
  otherwise, \<open>broadcast\<close> spawns the pipeline, and the child writes one chunk with the
  marker: in the first listing the relay is started, the handler throws, and the callback
  is not called; in the second the relay is started and the callback is called once.
\<close>

theorem start_callback_unbound_in_first_listing:
  "(\<exists>this this'.
      LiveCam (host ''linux'' [''/usr/bin/gst-launch-1.0''])
        \<lparr>config_gst_addr = JUndefined, config_gst_port = JUndefined,
         config_ui_addr = JUndefined, config_ui_port = JUndefined,
         config_broadcast_addr = JUndefined, config_broadcast_port = JUndefined,
         config_start = JFunc ''() => {}'', config_webcam = None\<rparr> = Inr this \<and>
      broadcast (host ''linux'' [''/usr/bin/gst-launch-1.0'']) this = Inr this' \<and>
      stdout_chunks this' no_effects [''Setting pipeline to PLAYING ...''] =
        \<lparr>wrap_calls = [(JStr ''127.0.0.1'', JNum 10000, JStr ''127.0.0.1'', JNum 12000)],
         start_calls = 0, emitted = [],
         uncaught = Some (ReferenceError ''start is not defined'')\<rparr>) \<and>
   (\<exists>this this'.
      LiveCam2 (host ''darwin'' [''/usr/local/bin/gst-launch-1.0''])
        \<lparr>config_gst_addr = JUndefined, config_gst_port = JUndefined,
         config_ui_addr = JUndefined, config_ui_port = JUndefined,
         config_broadcast_addr = JUndefined, config_broadcast_port = JUndefined,
         config_start = JFunc ''() => {}'', config_webcam = None\<rparr> = Inr this \<and>
      broadcast2 (host ''darwin'' [''/usr/local/bin/gst-launch-1.0'']) this = Inr this' \<and>
      stdout_chunks2 this' no_effects [''Setting pipeline to PLAYING ...''] =
        \<lparr>wrap_calls = [(JStr ''127.0.0.1'', JNum 10000, JStr ''127.0.0.1'', JNum 12000)],
         start_calls = 1, emitted = [], uncaught = None\<rparr>)"
proof -
  let ?cfg = "\<lparr>config_gst_addr = JUndefined, config_gst_port = JUndefined,
         config_ui_addr = JUndefined, config_ui_port = JUndefined,
         config_broadcast_addr = JUndefined, config_broadcast_port = JUndefined,
         config_start = JFunc ''() => {}'', config_webcam = None\<rparr>"
  let ?lc = "\<lparr>gst_tcp_addr = JStr ''127.0.0.1'', gst_tcp_port = JNum 10000,
      ui_addr = JStr ''127.0.0.1'', ui_port = JNum 11000,
      broadcast_addr = JStr ''127.0.0.1'', broadcast_port = JNum 12000,
      start = JFunc ''() => {}'', webcam = no_config,
      gst_cam_wrap = None, gst_cam_server = None, gst_cam_process = None\<rparr>"
  have a1: "LiveCam (host ''linux'' [''/usr/bin/gst-launch-1.0'']) ?cfg = Inr ?lc"
    by (rule sample_orchestrator)
  obtain this1 where b1: "broadcast (host ''linux'' [''/usr/bin/gst-launch-1.0'']) ?lc = Inr this1"
    and f1: "gst_tcp_addr this1 = JStr ''127.0.0.1''" "gst_tcp_port this1 = JNum 10000"
      "broadcast_addr this1 = JStr ''127.0.0.1''" "broadcast_port this1 = JNum 12000"
      "start this1 = JFunc ''() => {}''"
    using sample_broadcast by simp
  have c1: "stdout_chunks this1 no_effects [''Setting pipeline to PLAYING ...''] =
        \<lparr>wrap_calls = [(JStr ''127.0.0.1'', JNum 10000, JStr ''127.0.0.1'', JNum 12000)],
         start_calls = 0, emitted = [],
         uncaught = Some (ReferenceError ''start is not defined'')\<rparr>"
    by (simp add: stdout_chunks_def on_stdout_data_eq marker_sample wrap_def no_effects_def f1)
  have a2: "LiveCam2 (host ''darwin'' [''/usr/local/bin/gst-launch-1.0'']) ?cfg = Inr ?lc"
    by (rule sample_orchestrator2)
  obtain this2 where b2: "broadcast2 (host ''darwin'' [''/usr/local/bin/gst-launch-1.0'']) ?lc = Inr this2"
    and f2: "gst_tcp_addr this2 = JStr ''127.0.0.1''" "gst_tcp_port this2 = JNum 10000"
      "broadcast_addr this2 = JStr ''127.0.0.1''" "broadcast_port this2 = JNum 12000"
      "start this2 = JFunc ''() => {}''"
    using sample_broadcast2 by simp
  have c2: "stdout_chunks2 this2 no_effects [''Setting pipeline to PLAYING ...''] =
        \<lparr>wrap_calls = [(JStr ''127.0.0.1'', JNum 10000, JStr ''127.0.0.1'', JNum 12000)],
         start_calls = 1, emitted = [], uncaught = None\<rparr>"
    by (simp add: stdout_chunks2_def on_stdout_data2_def js_gt0_bool marker_sample wrap_def
        call_start_def no_effects_def f2)
  show ?thesis
    by (rule conjI, rule exI [of _ ?lc], rule exI [of _ this1], intro conjI, rule a1, rule b1,
        rule c1, rule exI [of _ ?lc], rule exI [of _ this2], intro conjI, rule a2, rule b2,
        rule c2)
qed

section \<open>The relay\<close>

lemma unbound_io:
  "resolve wrap_scope ''io'' = Inl (ReferenceError ''io is not defined'')"
  by code_simp

lemma base64_append:
  "length xs mod 3 = 0 \<Longrightarrow> base64 (xs @ ys) = base64 xs @ base64 ys"
proof (induction xs rule: base64.induct)
  case 1
  show ?case by simp
next
  case (2 a)
  then show ?case by simp
next
  case (3 a b)
  then show ?case by simp
next
  case (4 a b c rest)
  then show ?case by simp
qed

lemma concat_base64_chunks:
  "concat (base64_chunks kept chunks) = base64 (kept @ concat chunks)"
proof (induction chunks arbitrary: kept)
  case Nil
  show ?case by simp
next
  case (Cons chunk chunks)
  let ?buf = "kept @ chunk"
  let ?n = "length ?buf - length ?buf mod 3"
  have len: "length (take ?n ?buf) mod 3 = 0"
  proof -
    have "length (take ?n ?buf) = ?n" by simp
    moreover have "?n mod 3 = 0" by (simp add: minus_mod_eq_mult_div)
    ultimately show ?thesis by simp
  qed
  have "concat (base64_chunks kept (chunk # chunks)) =
      base64 (take ?n ?buf) @ base64 (drop ?n ?buf @ concat chunks)"
    by (simp add: Let_def Cons.IH)
  also have "\<dots> = base64 (take ?n ?buf @ drop ?n ?buf @ concat chunks)"
    using base64_append [OF len] by simp
  also have "\<dots> = base64 (kept @ concat (chunk # chunks))"
    by (simp only: append_assoc [symmetric] append_take_drop_id concat.simps)
  finally show ?case .
qed

lemma foldl_append: "foldl (\<lambda>acc d. acc @ d) acc xs = acc @ concat xs"
  by (induction xs arbitrary: acc) simp_all

lemma concat_nonempty: "concat (filter (\<lambda>d. d \<noteq> []) xs) = concat xs"
  by (induction xs) simp_all

lemma frame_text_base64: "frame_text chunks = base64 (concat chunks)"
  using concat_base64_chunks [of "[]" chunks]
  by (simp add: frame_text_def foldl_append concat_nonempty)

lemma relay_two_parts2:
  "pipe2 (SocketCamWrapper, no_effects) [part1, part2] =
     (\<lparr>relay_boundary = ''--videoboundary'', lastImage = base64 (concat part2)\<rparr>,
      \<lparr>wrap_calls = [], start_calls = 0,
       emitted = [(''image'', base64 (concat part1)), (''image'', base64 (concat part2))],
       uncaught = None\<rparr>)"
  by (simp add: pipe2_def on_part2_def publish_def frame_text_base64 SocketCamWrapper_def
      no_effects_def)

lemma relay_dies1:
  "pipe (SocketCamWrapper, no_effects) (part1 # parts) =
     (\<lparr>relay_boundary = ''--videoboundary'', lastImage = []\<rparr>,
      \<lparr>wrap_calls = [], start_calls = 0, emitted = [],
       uncaught = Some (ReferenceError ''io is not defined'')\<rparr>)"
proof -
  have dead: "foldl on_part (r, fx\<lparr>uncaught := Some ex\<rparr>) ps = (r, fx\<lparr>uncaught := Some ex\<rparr>)"
    for r fx ex ps
    by (induction ps) (simp_all add: on_part_def)
  show ?thesis
    using dead [where r = SocketCamWrapper and fx = no_effects
        and ex = "ReferenceError ''io is not defined''" and ps = parts]
    by (simp add: pipe_def on_part_def unbound_io SocketCamWrapper_def no_effects_def)
qed

lemma sample_frames:
  "base64 [0xff, 0xd8, 0xff, 0xe0] = ''/9j/4A==''" "base64 [0xff, 0xd9] = ''/9k=''"
  by (simp_all add: b64_char_def b64_alphabet_def Let_def)

text \<open>
  Claim C1 says that a stream of two parts gives two \<open>image\<close> events, each carrying the
  base64 text of its part, and leaves the second in \<open>lastImage\<close>. The second listing does
  so, as \<open>relay_two_parts2\<close> shows for every pair of parts and every cut into chunks. The
  first listing reads the emitter as the bare identifier \<open>io\<close>, which no scope declares:
  the \<open>end\<close> handler of the first part throws before it emits or stores anything.
\<close>

theorem emitter_unbound_in_first_listing:
  "pipe (SocketCamWrapper, no_effects) [[[0xff, 0xd8], [0xff, 0xe0]], [[0xff, 0xd9]]] =
     (\<lparr>relay_boundary = ''--videoboundary'', lastImage = []\<rparr>,
      \<lparr>wrap_calls = [], start_calls = 0, emitted = [],
       uncaught = Some (ReferenceError ''io is not defined'')\<rparr>) \<and>
   getLastImage (fst (pipe (SocketCamWrapper, no_effects)
      [[[0xff, 0xd8], [0xff, 0xe0]], [[0xff, 0xd9]]])) = [] \<and>
   pipe2 (SocketCamWrapper, no_effects) [[[0xff, 0xd8], [0xff, 0xe0]], [[0xff, 0xd9]]] =
     (\<lparr>relay_boundary = ''--videoboundary'', lastImage = ''/9k=''\<rparr>,
      \<lparr>wrap_calls = [], start_calls = 0,
       emitted = [(''image'', ''/9j/4A==''), (''image'', ''/9k='')],
       uncaught = None\<rparr>)"
  by (simp add: relay_dies1 relay_two_parts2 sample_frames getLastImage_def del: base64.simps)

end
